theory Spec2Isabelle
  imports Main
begin

section \<open>Configuration management service: versioning engine over its SQLite store\<close>

text \<open>
  The development follows the Go sources:
  \<^item> \<^verbatim>\<open>pkg/errors\<close>: error codes and \<^verbatim>\<open>AppError\<close>;
  \<^item> \<^verbatim>\<open>internal/domain/entity/configuration.go\<close>: the entities and their constructors;
  \<^item> \<^verbatim>\<open>pkg/validator/json_schema.go\<close>: \<^verbatim>\<open>JSONSchemaValidator\<close>;
  \<^item> \<^verbatim>\<open>internal/repository/sqlite/configuration_repository.go\<close>: the store;
  \<^item> package \<^verbatim>\<open>usecase\<close> (\<^verbatim>\<open>ConfigurationUseCase\<close>): the versioning engine.

  Conventions of the embedding.
  \<^item> \<^verbatim>\<open>json.RawMessage\<close> and Go strings are byte strings (\<open>string\<close>).
  \<^item> \<^verbatim>\<open>time.Time\<close> is an abstract instant (\<open>nat\<close>); \<^verbatim>\<open>time.Now().UTC()\<close> is read
    once per constructor call and is passed in as the argument \<open>now\<close>.
  \<^item> Go's \<^verbatim>\<open>int\<close> is a 64-bit two's complement integer: values are \<open>int\<close> and the one
    addition of the code (\<^verbatim>\<open>Version + 1\<close>) wraps through \<open>go_int\<close>.
  \<^item> A Go \<^verbatim>\<open>error\<close> is a value of \<open>go_error\<close>; a function returning
    \<^verbatim>\<open>(T, error)\<close> returns \<open>go_error + T\<close>, one returning \<^verbatim>\<open>error\<close> returns
    \<open>go_error option\<close>.
  \<^item> The database handle is the record \<open>db\<close>: the four tables and a schedule of
    injected failures. Every call into the database that can fail (\<^verbatim>\<open>Begin\<close>,
    \<^verbatim>\<open>Exec\<close>, \<^verbatim>\<open>QueryRow(...).Scan\<close>, \<^verbatim>\<open>Query\<close>, \<^verbatim>\<open>rows.Next\<close>,
    \<^verbatim>\<open>rows.Scan\<close>, \<^verbatim>\<open>Commit\<close>) consumes one entry of the schedule and fails with
    a driver error when the entry is \<open>True\<close>.
\<close>

subsection \<open>Go integers\<close>

definition go_int :: "int \<Rightarrow> int" where
  "go_int x = (x + 2 ^ 63) mod 2 ^ 64 - 2 ^ 63"

definition max_int :: int where
  "max_int = 2 ^ 63 - 1"

text \<open>\<^verbatim>\<open>fmt.Sprintf("%d", n)\<close>: decimal digits, with a leading minus sign.\<close>

fun itoa_nat :: "nat \<Rightarrow> string" where
  "itoa_nat n =
     (if n < 10 then [''0123456789'' ! n]
      else itoa_nat (n div 10) @ [''0123456789'' ! (n mod 10)])"

declare itoa_nat.simps [simp del]

definition itoa :: "int \<Rightarrow> string" where
  "itoa i = (if i < 0 then CHR ''-'' # itoa_nat (nat (- i)) else itoa_nat (nat i))"

subsection \<open>Package errors\<close>

datatype ErrorCode =
  NOT_FOUND | VALIDATION_FAILED | ALREADY_EXISTS | INVALID_REQUEST | INTERNAL_ERROR | UNAUTHORIZED

record ValidationError =
  Field :: string
  Reason :: string

text \<open>
  \<^verbatim>\<open>Details interface{}\<close> holds, in this code base, \<^verbatim>\<open>nil\<close>, the map
  \<^verbatim>\<open>{"id": resourceID}\<close>, a message string, or a slice of validation errors.
\<close>

datatype details =
  NoDetails
  | IdDetails string
  | TextDetails string
  | ValidationDetails "ValidationError list"

record AppError =
  Message :: string
  Code :: ErrorCode
  Details :: details

text \<open>
  The values behind the \<^verbatim>\<open>error\<close> interface: an \<^verbatim>\<open>*AppError\<close>, \<^verbatim>\<open>sql.ErrNoRows\<close>,
  a primary-key violation reported by SQLite, or any other failure of the driver.
\<close>

datatype go_error =
  App AppError
  | ErrNoRows
  | ConstraintError
  | DriverError

fun Error :: "go_error \<Rightarrow> string" where
  "Error (App e) = Message e"
| "Error ErrNoRows = ''sql: no rows in result set''"
| "Error ConstraintError = ''UNIQUE constraint failed''"
| "Error DriverError = ''driver: bad connection''"

definition NewAppError :: "string \<Rightarrow> ErrorCode \<Rightarrow> details \<Rightarrow> go_error" where
  "NewAppError message code dets = App \<lparr>Message = message, Code = code, Details = dets\<rparr>"

definition NewNotFoundError :: "string \<Rightarrow> string \<Rightarrow> go_error" where
  "NewNotFoundError resourceType resourceID =
     NewAppError (resourceType @ '' not found'') NOT_FOUND (IdDetails resourceID)"

definition NewAlreadyExistsError :: "string \<Rightarrow> string \<Rightarrow> go_error" where
  "NewAlreadyExistsError resourceType resourceID =
     NewAppError (resourceType @ '' already exists'') ALREADY_EXISTS (IdDetails resourceID)"

definition NewInvalidRequestError :: "string \<Rightarrow> details \<Rightarrow> go_error" where
  "NewInvalidRequestError message dets = NewAppError message INVALID_REQUEST dets"

definition NewValidationFailedError :: "string \<Rightarrow> details \<Rightarrow> go_error" where
  "NewValidationFailedError message dets = NewAppError message VALIDATION_FAILED dets"

definition NewInternalError :: "string \<Rightarrow> details \<Rightarrow> go_error" where
  "NewInternalError message dets = NewAppError message INTERNAL_ERROR dets"

text \<open>The code of an error, when it is an \<^verbatim>\<open>*AppError\<close> (what \<^verbatim>\<open>errors.As\<close> finds).\<close>

fun code_of :: "go_error \<Rightarrow> ErrorCode option" where
  "code_of (App e) = Some (Code e)"
| "code_of _ = None"

subsection \<open>Package entity\<close>

record Configuration =
  Name :: string
  Version :: int
  Data :: string
  CreatedAt :: nat
  UpdatedAt :: nat
  RollbackFrom :: int
  RollbackTo :: int

record VersionInfo =
  VI_Version :: int
  VI_CreatedAt :: nat
  IsRollback :: bool

record VersionList =
  VL_Name :: string
  Versions :: "VersionInfo list"

definition NewConfiguration :: "string \<Rightarrow> string \<Rightarrow> nat \<Rightarrow> Configuration" where
  "NewConfiguration name data now =
     \<lparr>Name = name, Version = 1, Data = data, CreatedAt = now, UpdatedAt = now,
      RollbackFrom = 0, RollbackTo = 0\<rparr>"

definition NewVersionFromRollback ::
    "Configuration \<Rightarrow> int \<Rightarrow> string \<Rightarrow> nat \<Rightarrow> Configuration" where
  "NewVersionFromRollback config targetVersion targetData now =
     \<lparr>Name = Name config, Version = go_int (Version config + 1), Data = targetData,
      CreatedAt = CreatedAt config, UpdatedAt = now,
      RollbackFrom = Version config, RollbackTo = targetVersion\<rparr>"

definition UpdateVersion :: "Configuration \<Rightarrow> string \<Rightarrow> nat \<Rightarrow> Configuration" where
  "UpdateVersion c data now =
     \<lparr>Name = Name c, Version = go_int (Version c + 1), Data = data,
      CreatedAt = CreatedAt c, UpdatedAt = now, RollbackFrom = 0, RollbackTo = 0\<rparr>"

subsection \<open>Package validator\<close>

text \<open>
  The library \<^verbatim>\<open>gojsonschema\<close> is not part of the repository; it is a parameter.
  \<open>Validate schema data\<close> is \<^verbatim>\<open>gojsonschema.Validate\<close>: \<open>Inl msg\<close> when a loader
  fails, \<open>Inr errs\<close> for a result whose \<^verbatim>\<open>Errors()\<close> are \<open>errs\<close>, each a pair of
  \<^verbatim>\<open>Field()\<close> and \<^verbatim>\<open>Description()\<close>; \<^verbatim>\<open>Valid()\<close> holds when there is none.
  \<open>NewSchema schema\<close> is \<^verbatim>\<open>gojsonschema.NewSchema\<close>: \<open>Some msg\<close> when the schema does
  not compile.
\<close>

record gojsonschema =
  Validate :: "string \<Rightarrow> string \<Rightarrow> string + (string \<times> string) list"
  NewSchema :: "string \<Rightarrow> string option"

definition ValidateJSON :: "gojsonschema \<Rightarrow> string \<Rightarrow> string \<Rightarrow> go_error option" where
  "ValidateJSON lib schema data =
     (case Validate lib schema data of
        Inl msg \<Rightarrow> Some (NewInternalError ''Failed to validate JSON'' (TextDetails msg))
      | Inr errs \<Rightarrow>
          if errs \<noteq> [] then
            Some (NewValidationFailedError ''JSON validation failed''
                    (ValidationDetails (map (\<lambda>(f, d). \<lparr>Field = f, Reason = d\<rparr>) errs)))
          else None)"

definition ValidateSchemaDefinition :: "gojsonschema \<Rightarrow> string \<Rightarrow> go_error option" where
  "ValidateSchemaDefinition lib schema =
     (case NewSchema lib schema of
        Some msg \<Rightarrow>
          Some (NewInvalidRequestError ''Invalid JSON Schema''
                  (TextDetails (''Schema validation error: '' @ msg)))
      | None \<Rightarrow> None)"

subsection \<open>The SQLite store\<close>

text \<open>
  The tables of \<^verbatim>\<open>initSchema\<close>. \<^verbatim>\<open>configurations\<close>, \<^verbatim>\<open>version_data\<close> and
  \<^verbatim>\<open>schemas\<close> are keyed by their primary key; \<^verbatim>\<open>versions\<close> is the list of its rows
  in insertion order, its primary key \<^verbatim>\<open>(name, version)\<close> being checked on insert.
  The columns \<^verbatim>\<open>rollback_from\<close> and \<^verbatim>\<open>rollback_to\<close> are nullable.
\<close>

record config_row =
  cfg_version :: int
  cfg_created_at :: nat
  cfg_updated_at :: nat
  cfg_rollback_from :: "int option"
  cfg_rollback_to :: "int option"

record version_row =
  ver_name :: string
  ver_version :: int
  ver_created_at :: nat
  ver_is_rollback :: bool

record db =
  configurations :: "string \<rightharpoonup> config_row"
  versions :: "version_row list"
  version_data :: "(string \<times> int) \<rightharpoonup> string"
  schemas :: "string \<rightharpoonup> string"
  faults :: "bool list"

definition empty_db :: "bool list \<Rightarrow> db" where
  "empty_db fs =
     \<lparr>configurations = Map.empty, versions = [], version_data = Map.empty,
      schemas = Map.empty, faults = fs\<rparr>"

text \<open>One round trip: does it fail, and the handle afterwards.\<close>

definition fault_now :: "db \<Rightarrow> bool" where
  "fault_now s = (case faults s of [] \<Rightarrow> False | f # _ \<Rightarrow> f)"

definition advance :: "db \<Rightarrow> db" where
  "advance s = s\<lparr>faults := tl (faults s)\<rparr>"

text \<open>The tables alone: the store with no failure pending.\<close>

definition tables :: "db \<Rightarrow> db" where
  "tables s = s\<lparr>faults := []\<rparr>"

text \<open>\<^verbatim>\<open>SELECT ... FROM versions WHERE name = ? AND version = ?\<close>\<close>

definition select_version :: "db \<Rightarrow> string \<Rightarrow> int \<Rightarrow> version_row option" where
  "select_version s name version =
     find (\<lambda>r. ver_name r = name \<and> ver_version r = version) (versions s)"

text \<open>\<^verbatim>\<open>SELECT ... FROM versions WHERE name = ? ORDER BY version\<close>\<close>

definition select_versions :: "db \<Rightarrow> string \<Rightarrow> version_row list" where
  "select_versions s name = sort_key ver_version (filter (\<lambda>r. ver_name r = name) (versions s))"

text \<open>
  \<^verbatim>\<open>CreateConfiguration\<close>: one transaction of \<^verbatim>\<open>Begin\<close>, two inserts and
  \<^verbatim>\<open>Commit\<close>. The deferred \<^verbatim>\<open>tx.Rollback()\<close> discards the inserts on every error
  return, so the tables change at the successful \<^verbatim>\<open>Commit\<close> only.
\<close>

definition repo_CreateConfiguration :: "db \<Rightarrow> Configuration \<Rightarrow> go_error option \<times> db" where
  "repo_CreateConfiguration s config =
     (let s1 = advance s; s2 = advance s1; s3 = advance s2; s4 = advance s3 in
      if fault_now s then (Some DriverError, s1)
      else if fault_now s1 then (Some DriverError, s2)
      else if configurations s (Name config) \<noteq> None then (Some ConstraintError, s2)
      else if fault_now s2 then (Some DriverError, s3)
      else if select_version s (Name config) (Version config) \<noteq> None
        then (Some ConstraintError, s3)
      else if fault_now s3 then (Some DriverError, s4)
      else (None, s4\<lparr>
        configurations := (configurations s)(Name config \<mapsto>
          \<lparr>cfg_version = Version config, cfg_created_at = CreatedAt config,
           cfg_updated_at = UpdatedAt config, cfg_rollback_from = None,
           cfg_rollback_to = None\<rparr>),
        versions := versions s @
          [\<lparr>ver_name = Name config, ver_version = Version config,
            ver_created_at = CreatedAt config, ver_is_rollback = False\<rparr>]\<rparr>))"

text \<open>
  \<^verbatim>\<open>UpdateConfiguration\<close>: the \<^verbatim>\<open>UPDATE\<close> changes the row of that name when there is
  one and is no error when there is none; the insert into \<^verbatim>\<open>versions\<close> follows in the
  same transaction.
\<close>

definition repo_UpdateConfiguration :: "db \<Rightarrow> Configuration \<Rightarrow> go_error option \<times> db" where
  "repo_UpdateConfiguration s config =
     (let s1 = advance s; s2 = advance s1; s3 = advance s2; s4 = advance s3 in
      if fault_now s then (Some DriverError, s1)
      else if fault_now s1 then (Some DriverError, s2)
      else if fault_now s2 then (Some DriverError, s3)
      else if select_version s (Name config) (Version config) \<noteq> None
        then (Some ConstraintError, s3)
      else if fault_now s3 then (Some DriverError, s4)
      else (None, s4\<lparr>
        configurations :=
          (case configurations s (Name config) of
             None \<Rightarrow> configurations s
           | Some row \<Rightarrow> (configurations s)(Name config \<mapsto>
               row\<lparr>cfg_version := Version config, cfg_updated_at := UpdatedAt config,
                   cfg_rollback_from := Some (RollbackFrom config),
                   cfg_rollback_to := Some (RollbackTo config)\<rparr>)),
        versions := versions s @
          [\<lparr>ver_name = Name config, ver_version = Version config,
            ver_created_at = UpdatedAt config,
            ver_is_rollback = (RollbackFrom config > 0)\<rparr>]\<rparr>))"

text \<open>
  \<^verbatim>\<open>GetConfiguration\<close>: the row, then the payload of its version. A \<^verbatim>\<open>NULL\<close> rollback
  column leaves the field at its zero value.
\<close>

definition repo_GetConfiguration :: "db \<Rightarrow> string \<Rightarrow> (go_error + Configuration) \<times> db" where
  "repo_GetConfiguration s name =
     (let s1 = advance s; s2 = advance s1 in
      if fault_now s then (Inl DriverError, s1)
      else case configurations s name of
        None \<Rightarrow> (Inl (NewNotFoundError ''Configuration'' name), s1)
      | Some row \<Rightarrow>
          if fault_now s1 then (Inl DriverError, s2)
          else (case version_data s (name, cfg_version row) of
            None \<Rightarrow> (Inl ErrNoRows, s2)
          | Some dataStr \<Rightarrow>
              (Inr \<lparr>Name = name, Version = cfg_version row, Data = dataStr,
                    CreatedAt = cfg_created_at row, UpdatedAt = cfg_updated_at row,
                    RollbackFrom = (case cfg_rollback_from row of None \<Rightarrow> 0 | Some v \<Rightarrow> v),
                    RollbackTo = (case cfg_rollback_to row of None \<Rightarrow> 0 | Some v \<Rightarrow> v)\<rparr>,
               s2)))"

definition repo_GetConfigurationVersion ::
    "db \<Rightarrow> string \<Rightarrow> int \<Rightarrow> (go_error + Configuration) \<times> db" where
  "repo_GetConfigurationVersion s name version =
     (let s1 = advance s; s2 = advance s1; s3 = advance s2; s4 = advance s3 in
      if fault_now s then (Inl DriverError, s1)
      else if select_version s name version = None
        then (Inl (NewNotFoundError ''Configuration version''
                     (name @ '':'' @ itoa version)), s1)
      else if fault_now s1 then (Inl DriverError, s2)
      else case select_version s name version of
        None \<Rightarrow> (Inl ErrNoRows, s2)
      | Some vrow \<Rightarrow>
          if fault_now s2 then (Inl DriverError, s3)
          else (case version_data s (name, version) of
            None \<Rightarrow> (Inl ErrNoRows, s3)
          | Some dataStr \<Rightarrow>
              if fault_now s3 then (Inl DriverError, s4)
              else (case configurations s name of
                None \<Rightarrow> (Inl ErrNoRows, s4)
              | Some row \<Rightarrow>
                  (Inr \<lparr>Name = name, Version = version, Data = dataStr,
                        CreatedAt = cfg_created_at row, UpdatedAt = ver_created_at vrow,
                        RollbackFrom = 0, RollbackTo = 0\<rparr>, s4))))"

text \<open>
  The loop \<^verbatim>\<open>for rows.Next() { ... rows.Scan(...) ... }\<close> of
  \<^verbatim>\<open>ListConfigurationVersions\<close> over the rows of the result, appending to
  \<open>infos\<close> (the slice \<^verbatim>\<open>versions\<close> of the source). \<^verbatim>\<open>rows.Next()\<close> returns
  \<^verbatim>\<open>false\<close> when no row is left and also when the driver fails; the source never
  consults \<^verbatim>\<open>rows.Err()\<close>, so in both cases the loop ends and the rows read so far
  are returned without an error. A failure of \<^verbatim>\<open>rows.Scan\<close> is returned.
\<close>

fun rows_loop ::
    "db \<Rightarrow> version_row list \<Rightarrow> VersionInfo list \<Rightarrow> (go_error + VersionInfo list) \<times> db" where
  "rows_loop s [] infos = (Inr infos, advance s)"
| "rows_loop s (r # rs) infos =
     (if fault_now s then (Inr infos, advance s)
      else if fault_now (advance s) then (Inl DriverError, advance (advance s))
      else rows_loop (advance (advance s)) rs
             (infos @ [\<lparr>VI_Version = ver_version r, VI_CreatedAt = ver_created_at r,
                        IsRollback = ver_is_rollback r\<rparr>]))"

definition repo_ListConfigurationVersions ::
    "db \<Rightarrow> string \<Rightarrow> (go_error + VersionList) \<times> db" where
  "repo_ListConfigurationVersions s name =
     (let s1 = advance s; s2 = advance s1 in
      if fault_now s then (Inl DriverError, s1)
      else if configurations s name = None
        then (Inl (NewNotFoundError ''Configuration'' name), s1)
      else if fault_now s1 then (Inl DriverError, s2)
      else (case rows_loop s2 (select_versions s name) [] of
              (Inl err, s3) \<Rightarrow> (Inl err, s3)
            | (Inr infos, s3) \<Rightarrow> (Inr \<lparr>VL_Name = name, Versions = infos\<rparr>, s3)))"

text \<open>\<^verbatim>\<open>RegisterSchema\<close>: an existence query, then \<^verbatim>\<open>UPDATE\<close> or \<^verbatim>\<open>INSERT\<close>.\<close>

definition repo_RegisterSchema :: "db \<Rightarrow> string \<Rightarrow> string \<Rightarrow> go_error option \<times> db" where
  "repo_RegisterSchema s configName schema =
     (let s1 = advance s; s2 = advance s1 in
      if fault_now s then (Some DriverError, s1)
      else if fault_now s1 then (Some DriverError, s2)
      else (None, s2\<lparr>schemas := (schemas s)(configName \<mapsto> schema)\<rparr>))"

definition repo_GetSchema :: "db \<Rightarrow> string \<Rightarrow> (go_error + string) \<times> db" where
  "repo_GetSchema s configName =
     (let s1 = advance s in
      if fault_now s then (Inl DriverError, s1)
      else case schemas s configName of
        None \<Rightarrow> (Inl (NewNotFoundError ''Schema'' configName), s1)
      | Some schemaStr \<Rightarrow> (Inr schemaStr, s1))"

text \<open>\<^verbatim>\<open>StoreVersionData\<close>: a single \<^verbatim>\<open>INSERT OR REPLACE\<close>, outside any transaction.\<close>

definition repo_StoreVersionData ::
    "db \<Rightarrow> string \<Rightarrow> int \<Rightarrow> string \<Rightarrow> go_error option \<times> db" where
  "repo_StoreVersionData s configName version data =
     (let s1 = advance s in
      if fault_now s then (Some DriverError, s1)
      else (None, s1\<lparr>version_data := (version_data s)((configName, version) \<mapsto> data)\<rparr>))"

definition repo_GetVersionData :: "db \<Rightarrow> string \<Rightarrow> int \<Rightarrow> (go_error + string) \<times> db" where
  "repo_GetVersionData s configName version =
     (let s1 = advance s in
      if fault_now s then (Inl DriverError, s1)
      else case version_data s (configName, version) of
        None \<Rightarrow> (Inl (NewNotFoundError ''Version data''
                        (configName @ '':'' @ itoa version)), s1)
      | Some dataStr \<Rightarrow> (Inr dataStr, s1))"

subsection \<open>The versioning engine (\<^verbatim>\<open>ConfigurationUseCase\<close>)\<close>

text \<open>
  The use case holds the repository and the validator; here the store \<open>s\<close> is threaded
  through and \<open>lib\<close> is the schema library behind the validator. A repository call that
  returns no error returns a non-nil value, so the tests \<^verbatim>\<open>existingConfig != nil\<close>,
  \<^verbatim>\<open>schema != nil\<close> and \<^verbatim>\<open>targetData == nil\<close> are decided by the error alone.
\<close>

definition uc_CreateConfiguration ::
    "gojsonschema \<Rightarrow> db \<Rightarrow> string \<Rightarrow> string \<Rightarrow> nat \<Rightarrow> (go_error + Configuration) \<times> db" where
  "uc_CreateConfiguration lib s name data now =
     (case repo_GetConfiguration s name of
        (Inr existingConfig, s1) \<Rightarrow> (Inl (NewAlreadyExistsError ''Configuration'' name), s1)
      | (Inl _, s1) \<Rightarrow>
         (case repo_GetSchema s1 name of (r, s2) \<Rightarrow>
            (case (case r of Inr schema \<Rightarrow> ValidateJSON lib schema data | Inl _ \<Rightarrow> None) of
               Some err \<Rightarrow> (Inl err, s2)
             | None \<Rightarrow>
                (let config = NewConfiguration name data now in
                 case repo_CreateConfiguration s2 config of
                   (Some err, s3) \<Rightarrow>
                     (Inl (NewInternalError ''Failed to create configuration''
                             (TextDetails (Error err))), s3)
                 | (None, s3) \<Rightarrow>
                     (case repo_StoreVersionData s3 name (Version config) data of
                        (Some err, s4) \<Rightarrow>
                          (Inl (NewInternalError ''Failed to store version data''
                                  (TextDetails (Error err))), s4)
                      | (None, s4) \<Rightarrow> (Inr config, s4))))))"

definition uc_UpdateConfiguration ::
    "gojsonschema \<Rightarrow> db \<Rightarrow> string \<Rightarrow> string \<Rightarrow> nat \<Rightarrow> (go_error + Configuration) \<times> db" where
  "uc_UpdateConfiguration lib s name data now =
     (case repo_GetConfiguration s name of
        (Inl _, s1) \<Rightarrow> (Inl (NewNotFoundError ''Configuration'' name), s1)
      | (Inr existingConfig, s1) \<Rightarrow>
         (case repo_GetSchema s1 name of (r, s2) \<Rightarrow>
            (case (case r of Inr schema \<Rightarrow> ValidateJSON lib schema data | Inl _ \<Rightarrow> None) of
               Some err \<Rightarrow> (Inl err, s2)
             | None \<Rightarrow>
                (let newConfig = UpdateVersion existingConfig data now in
                 case repo_UpdateConfiguration s2 newConfig of
                   (Some err, s3) \<Rightarrow>
                     (Inl (NewInternalError ''Failed to update configuration''
                             (TextDetails (Error err))), s3)
                 | (None, s3) \<Rightarrow>
                     (case repo_StoreVersionData s3 name (Version newConfig) data of
                        (Some err, s4) \<Rightarrow>
                          (Inl (NewInternalError ''Failed to store version data''
                                  (TextDetails (Error err))), s4)
                      | (None, s4) \<Rightarrow> (Inr newConfig, s4))))))"

definition uc_GetConfiguration ::
    "gojsonschema \<Rightarrow> db \<Rightarrow> string \<Rightarrow> (go_error + Configuration) \<times> db" where
  "uc_GetConfiguration lib s name =
     (case repo_GetConfiguration s name of
        (Inl _, s1) \<Rightarrow> (Inl (NewNotFoundError ''Configuration'' name), s1)
      | (Inr config, s1) \<Rightarrow> (Inr config, s1))"

definition uc_GetConfigurationVersion ::
    "gojsonschema \<Rightarrow> db \<Rightarrow> string \<Rightarrow> int \<Rightarrow> (go_error + Configuration) \<times> db" where
  "uc_GetConfigurationVersion lib s name version =
     (case repo_GetConfigurationVersion s name version of
        (Inl _, s1) \<Rightarrow> (Inl (NewNotFoundError ''Configuration version'' name), s1)
      | (Inr config, s1) \<Rightarrow> (Inr config, s1))"

definition uc_ListConfigurationVersions ::
    "gojsonschema \<Rightarrow> db \<Rightarrow> string \<Rightarrow> (go_error + VersionList) \<times> db" where
  "uc_ListConfigurationVersions lib s name =
     (case repo_GetConfiguration s name of
        (Inl _, s1) \<Rightarrow> (Inl (NewNotFoundError ''Configuration'' name), s1)
      | (Inr _, s1) \<Rightarrow>
         (case repo_ListConfigurationVersions s1 name of
            (Inl err, s2) \<Rightarrow>
              (Inl (NewInternalError ''Failed to list configuration versions''
                      (TextDetails (Error err))), s2)
          | (Inr versionList, s2) \<Rightarrow> (Inr versionList, s2)))"

definition uc_RollbackConfiguration ::
    "gojsonschema \<Rightarrow> db \<Rightarrow> string \<Rightarrow> int \<Rightarrow> nat \<Rightarrow> (go_error + Configuration) \<times> db" where
  "uc_RollbackConfiguration lib s name targetVersion now =
     (case repo_GetConfiguration s name of
        (Inl _, s1) \<Rightarrow> (Inl (NewNotFoundError ''Configuration'' name), s1)
      | (Inr currentConfig, s1) \<Rightarrow>
         (case repo_GetVersionData s1 name targetVersion of
            (Inl _, s2) \<Rightarrow> (Inl (NewNotFoundError ''Configuration version'' name), s2)
          | (Inr targetData, s2) \<Rightarrow>
             (let newConfig = NewVersionFromRollback currentConfig targetVersion targetData now in
              case repo_UpdateConfiguration s2 newConfig of
                (Some err, s3) \<Rightarrow>
                  (Inl (NewInternalError ''Failed to rollback configuration''
                          (TextDetails (Error err))), s3)
              | (None, s3) \<Rightarrow>
                  (case repo_StoreVersionData s3 name (Version newConfig) targetData of
                     (Some err, s4) \<Rightarrow>
                       (Inl (NewInternalError ''Failed to store version data''
                               (TextDetails (Error err))), s4)
                   | (None, s4) \<Rightarrow> (Inr newConfig, s4)))))"

definition uc_RegisterSchema ::
    "gojsonschema \<Rightarrow> db \<Rightarrow> string \<Rightarrow> string \<Rightarrow> go_error option \<times> db" where
  "uc_RegisterSchema lib s configName schema =
     (case ValidateSchemaDefinition lib schema of
        Some err \<Rightarrow> (Some err, s)
      | None \<Rightarrow>
         (case repo_RegisterSchema s configName schema of
            (Some err, s1) \<Rightarrow>
              (Some (NewInternalError ''Failed to register schema''
                       (TextDetails (Error err))), s1)
          | (None, s1) \<Rightarrow> (None, s1)))"

definition uc_GetSchema :: "gojsonschema \<Rightarrow> db \<Rightarrow> string \<Rightarrow> (go_error + string) \<times> db" where
  "uc_GetSchema lib s configName =
     (case repo_GetSchema s configName of
        (Inl _, s1) \<Rightarrow> (Inl (NewNotFoundError ''Schema'' configName), s1)
      | (Inr schema, s1) \<Rightarrow> (Inr schema, s1))"

definition uc_ValidateConfigurationData ::
    "gojsonschema \<Rightarrow> db \<Rightarrow> string \<Rightarrow> string \<Rightarrow> go_error option \<times> db" where
  "uc_ValidateConfigurationData lib s configName data =
     (case repo_GetSchema s configName of
        (Inl _, s1) \<Rightarrow> (Some (NewNotFoundError ''Schema'' configName), s1)
      | (Inr schema, s1) \<Rightarrow> (ValidateJSON lib schema data, s1))"

subsection \<open>Histories of calls\<close>

text \<open>
  A request to the engine, with the instant its constructor reads from the clock. A
  history is run from the empty database, under any schedule of failures.
\<close>

datatype call =
  Create string string nat
  | Update string string nat
  | Rollback string int nat
  | Get string
  | GetVersion string int
  | ListVersions string
  | RegisterSchema string string
  | GetSchema string
  | ValidateData string string

text \<open>The error a call returns, if any, and the store it leaves.\<close>

fun exec :: "gojsonschema \<Rightarrow> db \<Rightarrow> call \<Rightarrow> go_error option \<times> db" where
  "exec lib s (Create name data now) =
     (case uc_CreateConfiguration lib s name data now of
        (Inl e, s') \<Rightarrow> (Some e, s') | (Inr _, s') \<Rightarrow> (None, s'))"
| "exec lib s (Update name data now) =
     (case uc_UpdateConfiguration lib s name data now of
        (Inl e, s') \<Rightarrow> (Some e, s') | (Inr _, s') \<Rightarrow> (None, s'))"
| "exec lib s (Rollback name targetVersion now) =
     (case uc_RollbackConfiguration lib s name targetVersion now of
        (Inl e, s') \<Rightarrow> (Some e, s') | (Inr _, s') \<Rightarrow> (None, s'))"
| "exec lib s (Get name) =
     (case uc_GetConfiguration lib s name of
        (Inl e, s') \<Rightarrow> (Some e, s') | (Inr _, s') \<Rightarrow> (None, s'))"
| "exec lib s (GetVersion name version) =
     (case uc_GetConfigurationVersion lib s name version of
        (Inl e, s') \<Rightarrow> (Some e, s') | (Inr _, s') \<Rightarrow> (None, s'))"
| "exec lib s (ListVersions name) =
     (case uc_ListConfigurationVersions lib s name of
        (Inl e, s') \<Rightarrow> (Some e, s') | (Inr _, s') \<Rightarrow> (None, s'))"
| "exec lib s (RegisterSchema name schema) = uc_RegisterSchema lib s name schema"
| "exec lib s (GetSchema name) =
     (case uc_GetSchema lib s name of
        (Inl e, s') \<Rightarrow> (Some e, s') | (Inr _, s') \<Rightarrow> (None, s'))"
| "exec lib s (ValidateData name data) = uc_ValidateConfigurationData lib s name data"

fun run :: "gojsonschema \<Rightarrow> db \<Rightarrow> call list \<Rightarrow> db" where
  "run lib s [] = s"
| "run lib s (c # cs) = run lib (snd (exec lib s c)) cs"

subsection \<open>Version records of a name, and the invariant of the store\<close>

text \<open>The version numbers of the version records of a name, in the order of the table.\<close>

definition versions_of :: "db \<Rightarrow> string \<Rightarrow> int list" where
  "versions_of s name = map ver_version (filter (\<lambda>r. ver_name r = name) (versions s))"

text \<open>
  The invariant kept by every call: a name without a configuration row has no version
  record; the version records of a name with a row are numbered \<open>1, 2, ...\<close> up to the
  head of the row, the head being at least \<open>1\<close> and at most the number \<open>k\<close> of calls
  made so far; a payload is stored only for a version that has a record; and every
  version record of the name other than the head has its payload.
\<close>

definition store_inv :: "nat \<Rightarrow> db \<Rightarrow> bool" where
  "store_inv k s \<longleftrightarrow>
     (\<forall>name. configurations s name = None \<longrightarrow> versions_of s name = []) \<and>
     (\<forall>name row. configurations s name = Some row \<longrightarrow>
        versions_of s name = [1..cfg_version row] \<and>
        1 \<le> cfg_version row \<and> cfg_version row \<le> int k) \<and>
     (\<forall>name v. version_data s (name, v) \<noteq> None \<longrightarrow> v \<in> set (versions_of s name)) \<and>
     (\<forall>name row v. configurations s name = Some row \<longrightarrow> v \<in> set (versions_of s name) \<longrightarrow>
        v \<noteq> cfg_version row \<longrightarrow> version_data s (name, v) \<noteq> None)"

subsection \<open>A concrete library, history and store\<close>

text \<open>
  A schema library that knows one schema, with the required property \<open>k\<close>, one document
  that is not JSON, and one schema that does not compile.
\<close>

definition demo_lib :: gojsonschema where
  "demo_lib =
     \<lparr>Validate = (\<lambda>schema data.
        if data = ''not json'' then Inl ''invalid character''
        else if schema = ''{\"required\":[\"k\"]}'' \<and> data = ''{}''
          then Inr [(''(root)'', ''k is required'')]
        else Inr []),
      NewSchema = (\<lambda>schema. if schema = ''{'' then Some ''unexpected EOF'' else None)\<rparr>"

definition demo_calls :: "call list" where
  "demo_calls =
     [Create ''a'' ''{\"k\":1}'' 10, Update ''a'' ''{\"k\":2}'' 20, Rollback ''a'' 1 30]"

text \<open>The store that the history \<open>demo_calls\<close> leaves.\<close>

definition demo_db :: db where
  "demo_db =
     \<lparr>configurations = [''a'' \<mapsto>
        \<lparr>cfg_version = 3, cfg_created_at = 10, cfg_updated_at = 30,
         cfg_rollback_from = Some 2, cfg_rollback_to = Some 1\<rparr>],
      versions =
        [\<lparr>ver_name = ''a'', ver_version = 1, ver_created_at = 10, ver_is_rollback = False\<rparr>,
         \<lparr>ver_name = ''a'', ver_version = 2, ver_created_at = 20, ver_is_rollback = False\<rparr>,
         \<lparr>ver_name = ''a'', ver_version = 3, ver_created_at = 30, ver_is_rollback = True\<rparr>],
      version_data = [(''a'', 1) \<mapsto> ''{\"k\":1}'', (''a'', 2) \<mapsto> ''{\"k\":2}'',
                      (''a'', 3) \<mapsto> ''{\"k\":1}''],
      schemas = Map.empty, faults = []\<rparr>"

text \<open>
  A history that registers a schema after the fact: the payload of version \<open>1\<close> does
  not satisfy the schema registered last.
\<close>

definition strict_calls :: "call list" where
  "strict_calls =
     [Create ''a'' ''{}'' 10, Update ''a'' ''{\"k\":2}'' 20,
      RegisterSchema ''a'' ''{\"required\":[\"k\"]}'']"

text \<open>A schema is registered for a name before its configuration is created.\<close>

definition gated_calls :: "call list" where
  "gated_calls = [RegisterSchema ''x'' ''{\"required\":[\"k\"]}'', Create ''x'' ''{\"k\":1}'' 10]"

text \<open>
  Stores left by histories during which the connection is lost: after a configuration
  has been created, when the next query is sent; after a schema has been registered,
  when the schema is next queried; after a configuration has been created, when the
  next transaction begins; during an update, when the payload of the new version is
  stored; and after an update, when the second row of the next listing is fetched.
\<close>

definition lost_connection_db :: db where
  "lost_connection_db =
     run demo_lib (empty_db [False, False, False, False, False, False, False, True])
       [Create ''a'' ''{\"k\":1}'' 10]"

definition lost_schema_query_db :: db where
  "lost_schema_query_db =
     run demo_lib (empty_db [False, False, False, True])
       [RegisterSchema ''b'' ''{\"required\":[\"k\"]}'']"

definition lost_write_db :: db where
  "lost_write_db =
     run demo_lib
       (empty_db [False, False, False, False, False, False, False, False, False, False, True])
       [Create ''a'' ''{\"k\":1}'' 10]"

definition stuck_head_db :: db where
  "stuck_head_db =
     run demo_lib
       (empty_db [False, False, False, False, False, False, False,
                  False, False, False, False, False, False, False, True])
       [Create ''a'' ''{\"k\":1}'' 10, Update ''a'' ''{\"k\":2}'' 20]"

definition lost_rows_db :: db where
  "lost_rows_db =
     run demo_lib
       (empty_db [False, False, False, False, False, False, False,
                  False, False, False, False, False, False, False, False,
                  False, False, False, False, False, False, True])
       [Create ''a'' ''{\"k\":1}'' 10, Update ''a'' ''{\"k\":2}'' 20]"

section \<open>Basic facts about the store\<close>

lemma fault_now_tables [simp]: "fault_now (tables s) = False"
  by (simp add: fault_now_def tables_def)

lemma advance_tables [simp]: "advance (tables s) = tables s"
  by (simp add: advance_def tables_def)

lemma tables_advance [simp]: "tables (advance s) = tables s"
  by (simp add: advance_def tables_def)

lemma tables_tables [simp]: "tables (tables s) = tables s"
  by (simp add: tables_def)

lemma advance_fields [simp]:
  "configurations (advance s) = configurations s"
  "versions (advance s) = versions s"
  "version_data (advance s) = version_data s"
  "schemas (advance s) = schemas s"
  by (simp_all add: advance_def)

lemma tables_fields [simp]:
  "configurations (tables s) = configurations s"
  "versions (tables s) = versions s"
  "version_data (tables s) = version_data s"
  "schemas (tables s) = schemas s"
  "faults (tables s) = []"
  by (simp_all add: tables_def)

lemma tables_eq_iff:
  "tables s' = tables s \<longleftrightarrow>
     configurations s' = configurations s \<and> versions s' = versions s \<and>
     version_data s' = version_data s \<and> schemas s' = schemas s"
  by (cases s, cases s') (auto simp: tables_def)

lemma select_version_advance [simp]: "select_version (advance s) = select_version s"
  by (simp add: select_version_def fun_eq_iff)

lemma select_version_tables [simp]: "select_version (tables s) = select_version s"
  by (simp add: select_version_def fun_eq_iff)

lemma select_versions_advance [simp]: "select_versions (advance s) = select_versions s"
  by (simp add: select_versions_def fun_eq_iff)

lemma select_versions_tables [simp]: "select_versions (tables s) = select_versions s"
  by (simp add: select_versions_def fun_eq_iff)

text \<open>Reads leave the tables alone.\<close>

lemma repo_GetConfiguration_tables:
  "repo_GetConfiguration s name = (r, s') \<Longrightarrow> tables s' = tables s"
  by (auto simp: repo_GetConfiguration_def Let_def split: if_splits option.splits)

lemma repo_GetSchema_tables:
  "repo_GetSchema s name = (r, s') \<Longrightarrow> tables s' = tables s"
  by (auto simp: repo_GetSchema_def Let_def split: if_splits option.splits)

lemma repo_GetVersionData_tables:
  "repo_GetVersionData s name v = (r, s') \<Longrightarrow> tables s' = tables s"
  by (auto simp: repo_GetVersionData_def Let_def split: if_splits option.splits)

lemma repo_GetConfigurationVersion_tables:
  "repo_GetConfigurationVersion s name v = (r, s') \<Longrightarrow> tables s' = tables s"
  by (auto simp: repo_GetConfigurationVersion_def Let_def split: if_splits option.splits)

lemma rows_loop_tables: "tables (snd (rows_loop s rs infos)) = tables s"
  by (induction s rs infos rule: rows_loop.induct) simp_all

lemma rows_loop_no_fault:
  "faults s = [] \<Longrightarrow>
   rows_loop s rs infos =
     (Inr (infos @ map (\<lambda>r. \<lparr>VI_Version = ver_version r, VI_CreatedAt = ver_created_at r,
                               IsRollback = ver_is_rollback r\<rparr>) rs), s)"
  by (induction s rs infos rule: rows_loop.induct)
    (simp_all add: fault_now_def advance_def)

lemma repo_ListConfigurationVersions_tables:
  "repo_ListConfigurationVersions s name = (r, s') \<Longrightarrow> tables s' = tables s"
  using rows_loop_tables [of "advance (advance s)" "select_versions s name" "[]"]
  by (auto simp: repo_ListConfigurationVersions_def Let_def
      split: if_splits option.splits prod.splits sum.splits)

text \<open>Writes.\<close>

lemma repo_CreateConfiguration_failed:
  "repo_CreateConfiguration s c = (Some e, s') \<Longrightarrow> tables s' = tables s"
  by (auto simp: repo_CreateConfiguration_def Let_def split: if_splits)

lemma repo_CreateConfiguration_done:
  assumes "repo_CreateConfiguration s c = (None, s')"
  shows "configurations s (Name c) = None"
    and "select_version s (Name c) (Version c) = None"
    and "configurations s' = (configurations s)(Name c \<mapsto>
          \<lparr>cfg_version = Version c, cfg_created_at = CreatedAt c,
           cfg_updated_at = UpdatedAt c, cfg_rollback_from = None, cfg_rollback_to = None\<rparr>)"
    and "versions s' = versions s @
          [\<lparr>ver_name = Name c, ver_version = Version c,
            ver_created_at = CreatedAt c, ver_is_rollback = False\<rparr>]"
    and "version_data s' = version_data s"
    and "schemas s' = schemas s"
  using assms
  by (auto simp: repo_CreateConfiguration_def Let_def split: if_splits)

lemma repo_UpdateConfiguration_failed:
  "repo_UpdateConfiguration s c = (Some e, s') \<Longrightarrow> tables s' = tables s"
  by (auto simp: repo_UpdateConfiguration_def Let_def split: if_splits)

lemma repo_UpdateConfiguration_done:
  assumes "repo_UpdateConfiguration s c = (None, s')"
  shows "select_version s (Name c) (Version c) = None"
    and "configurations s' =
          (case configurations s (Name c) of
             None \<Rightarrow> configurations s
           | Some row \<Rightarrow> (configurations s)(Name c \<mapsto>
               row\<lparr>cfg_version := Version c, cfg_updated_at := UpdatedAt c,
                   cfg_rollback_from := Some (RollbackFrom c),
                   cfg_rollback_to := Some (RollbackTo c)\<rparr>))"
    and "versions s' = versions s @
          [\<lparr>ver_name = Name c, ver_version = Version c,
            ver_created_at = UpdatedAt c, ver_is_rollback = (RollbackFrom c > 0)\<rparr>]"
    and "version_data s' = version_data s"
    and "schemas s' = schemas s"
  using assms
  by (auto simp: repo_UpdateConfiguration_def Let_def split: if_splits)

lemma repo_StoreVersionData_failed:
  "repo_StoreVersionData s n v d = (Some e, s') \<Longrightarrow> tables s' = tables s"
  by (auto simp: repo_StoreVersionData_def Let_def split: if_splits)

lemma repo_StoreVersionData_done:
  assumes "repo_StoreVersionData s n v d = (None, s')"
  shows "configurations s' = configurations s"
    and "versions s' = versions s"
    and "version_data s' = (version_data s)((n, v) \<mapsto> d)"
    and "schemas s' = schemas s"
  using assms
  by (auto simp: repo_StoreVersionData_def Let_def split: if_splits)

lemma repo_RegisterSchema_failed:
  "repo_RegisterSchema s n sch = (Some e, s') \<Longrightarrow> tables s' = tables s"
  by (auto simp: repo_RegisterSchema_def Let_def split: if_splits)

lemma repo_RegisterSchema_done:
  assumes "repo_RegisterSchema s n sch = (None, s')"
  shows "configurations s' = configurations s"
    and "versions s' = versions s"
    and "version_data s' = version_data s"
    and "schemas s' = (schemas s)(n \<mapsto> sch)"
  using assms
  by (auto simp: repo_RegisterSchema_def Let_def split: if_splits)

text \<open>What a successful read has seen.\<close>

lemma repo_GetConfiguration_ok:
  assumes "repo_GetConfiguration s name = (Inr c, s')"
  shows "\<exists>row. configurations s name = Some row \<and> Version c = cfg_version row \<and>
           CreatedAt c = cfg_created_at row \<and> Name c = name \<and>
           version_data s (name, cfg_version row) = Some (Data c)"
  using assms
  by (auto simp: repo_GetConfiguration_def Let_def split: if_splits option.splits)

lemma repo_GetVersionData_ok:
  "repo_GetVersionData s name v = (Inr d, s') \<Longrightarrow> version_data s (name, v) = Some d"
  by (auto simp: repo_GetVersionData_def Let_def split: if_splits option.splits)

section \<open>The invariant is kept\<close>

lemma go_int_id: "- (2 ^ 63) \<le> x \<Longrightarrow> x \<le> max_int \<Longrightarrow> go_int x = x"
  by (simp add: go_int_def max_int_def)

lemma select_version_iff:
  "select_version s name v \<noteq> None \<longleftrightarrow> v \<in> set (versions_of s name)"
  by (auto simp: select_version_def versions_of_def find_None_iff)

lemma versions_of_cong: "versions s' = versions s \<Longrightarrow> versions_of s' = versions_of s"
  by (simp add: versions_of_def fun_eq_iff)

lemma store_inv_tables: "tables s' = tables s \<Longrightarrow> store_inv k s' = store_inv k s"
  by (simp add: tables_eq_iff store_inv_def versions_of_def)

lemma store_inv_mono: "store_inv k s \<Longrightarrow> k \<le> k' \<Longrightarrow> store_inv k' s"
  unfolding store_inv_def by (fastforce dest: spec)

lemma store_inv_empty: "store_inv 0 (empty_db fs)"
  by (simp add: store_inv_def empty_db_def versions_of_def)

lemma versions_of_append:
  "versions s' = versions s @ [r] \<Longrightarrow>
   versions_of s' name =
     (if ver_name r = name then versions_of s name @ [ver_version r] else versions_of s name)"
  by (simp add: versions_of_def)

lemma create_tx_inv:
  assumes inv: "store_inv k s"
    and tx: "repo_CreateConfiguration s (NewConfiguration name data now) = (None, s')"
  shows "store_inv (Suc k) s'" and "1 \<in> set (versions_of s' name)"
proof -
  let ?c = "NewConfiguration name data now"
  have nm: "Name ?c = name" and vv: "Version ?c = 1"
    by (simp_all add: NewConfiguration_def)
  note d = repo_CreateConfiguration_done [OF tx, unfolded nm vv]
  have vo: "\<And>n. versions_of s' n = (if n = name then versions_of s n @ [1] else versions_of s n)"
    using versions_of_append [OF d(4)] by auto
  have none: "versions_of s name = []"
    using inv d(1) by (simp add: store_inv_def)
  show "1 \<in> set (versions_of s' name)" by (simp add: vo)
  show "store_inv (Suc k) s'"
    unfolding store_inv_def
  proof (intro conjI allI impI)
    fix n assume "configurations s' n = None"
    then show "versions_of s' n = []"
      using inv by (auto simp: d(3) vo store_inv_def split: if_splits)
  next
    fix n row assume r: "configurations s' n = Some row"
    show "versions_of s' n = [1..cfg_version row]"
    proof (cases "n = name")
      case True
      then show ?thesis using r none by (auto simp: d(3) vo)
    next
      case False
      then show ?thesis using r inv by (auto simp: d(3) vo store_inv_def)
    qed
    show "1 \<le> cfg_version row"
      using r inv by (cases "n = name") (auto simp: d(3) store_inv_def)
    show "cfg_version row \<le> int (Suc k)"
      using r inv by (cases "n = name") (fastforce simp: d(3) store_inv_def)+
  next
    fix n v assume "version_data s' (n, v) \<noteq> None"
    then have "v \<in> set (versions_of s n)"
      using inv by (simp add: d(5) store_inv_def)
    then show "v \<in> set (versions_of s' n)" by (auto simp: vo)
  next
    fix n row v
    assume r: "configurations s' n = Some row" and v: "v \<in> set (versions_of s' n)"
      and ne: "v \<noteq> cfg_version row"
    show "version_data s' (n, v) \<noteq> None"
    proof (cases "n = name")
      case True
      then show ?thesis using r v ne none by (auto simp: d(3) vo)
    next
      case False
      then have "configurations s n = Some row" "v \<in> set (versions_of s n)"
        using r v by (auto simp: d(3) vo)
      then show ?thesis using inv ne unfolding store_inv_def d(5) by blast
    qed
  qed
qed

lemma update_tx_inv:
  assumes inv: "store_inv k s"
    and k: "int k < max_int"
    and row: "configurations s (Name c) = Some row"
    and ver: "Version c = go_int (cfg_version row + 1)"
    and pl: "version_data s (Name c, cfg_version row) \<noteq> None"
    and tx: "repo_UpdateConfiguration s c = (None, s')"
  shows "store_inv (Suc k) s'" and "Version c \<in> set (versions_of s' (Name c))"
    and "Version c = cfg_version row + 1"
proof -
  have h: "1 \<le> cfg_version row" "cfg_version row \<le> int k"
    and vs: "versions_of s (Name c) = [1..cfg_version row]"
    using inv row by (auto simp: store_inv_def)
  show v1: "Version c = cfg_version row + 1"
    unfolding ver using h k by (intro go_int_id) (simp_all add: max_int_def)
  note d = repo_UpdateConfiguration_done [OF tx]
  have cf: "configurations s' = (configurations s)(Name c \<mapsto>
               row\<lparr>cfg_version := Version c, cfg_updated_at := UpdatedAt c,
                   cfg_rollback_from := Some (RollbackFrom c),
                   cfg_rollback_to := Some (RollbackTo c)\<rparr>)"
    using d(2) row by simp
  have vo: "\<And>n. versions_of s' n =
      (if n = Name c then versions_of s n @ [Version c] else versions_of s n)"
    using versions_of_append [OF d(3)] by auto
  have up: "[1..cfg_version row] @ [cfg_version row + 1] = [1..cfg_version row + 1]"
    using h(1) upto_rec2 [of 1 "cfg_version row + 1"] by simp
  show "Version c \<in> set (versions_of s' (Name c))" by (simp add: vo)
  show "store_inv (Suc k) s'"
    unfolding store_inv_def
  proof (intro conjI allI impI)
    fix n assume "configurations s' n = None"
    then show "versions_of s' n = []"
      using inv by (auto simp: cf vo store_inv_def split: if_splits)
  next
    fix n r assume r: "configurations s' n = Some r"
    show "versions_of s' n = [1..cfg_version r]"
    proof (cases "n = Name c")
      case True
      then show ?thesis using r by (auto simp: cf vo vs v1 up)
    next
      case False
      then show ?thesis using r inv by (auto simp: cf vo store_inv_def)
    qed
    show "1 \<le> cfg_version r"
      using r inv h by (cases "n = Name c") (auto simp: cf v1 store_inv_def)
    show "cfg_version r \<le> int (Suc k)"
      using r inv h by (cases "n = Name c") (fastforce simp: cf v1 store_inv_def)+
  next
    fix n v assume "version_data s' (n, v) \<noteq> None"
    then have "v \<in> set (versions_of s n)"
      using inv by (simp add: d(4) store_inv_def)
    then show "v \<in> set (versions_of s' n)" by (auto simp: vo)
  next
    fix n r v
    assume r: "configurations s' n = Some r" and v: "v \<in> set (versions_of s' n)"
      and ne: "v \<noteq> cfg_version r"
    show "version_data s' (n, v) \<noteq> None"
    proof (cases "n = Name c")
      case True
      then have old: "v \<in> set (versions_of s (Name c))"
        using r v ne by (auto simp: cf vo)
      show ?thesis
      proof (cases "v = cfg_version row")
        case True
        then show ?thesis using pl \<open>n = Name c\<close> by (simp add: d(4))
      next
        case False
        then show ?thesis
          using inv row old \<open>n = Name c\<close> unfolding store_inv_def d(4) by blast
      qed
    next
      case False
      then have "configurations s n = Some r" "v \<in> set (versions_of s n)"
        using r v by (auto simp: cf vo)
      then show ?thesis using inv ne unfolding store_inv_def d(4) by blast
    qed
  qed
qed

lemma store_data_inv:
  assumes inv: "store_inv k s"
    and v: "v \<in> set (versions_of s n)"
    and st: "repo_StoreVersionData s n v d = (r, s')"
  shows "store_inv k s'"
proof (cases r)
  case None
  note d = repo_StoreVersionData_done [OF st [unfolded None]]
  show ?thesis
    using inv v unfolding store_inv_def
    by (simp add: d versions_of_cong [OF d(2)])
next
  case (Some e)
  then show ?thesis
    using inv store_inv_tables [OF repo_StoreVersionData_failed] st by blast
qed

lemma NewConfiguration_sel [simp]:
  "Name (NewConfiguration name data now) = name"
  "Version (NewConfiguration name data now) = 1"
  "Data (NewConfiguration name data now) = data"
  "CreatedAt (NewConfiguration name data now) = now"
  "UpdatedAt (NewConfiguration name data now) = now"
  "RollbackFrom (NewConfiguration name data now) = 0"
  "RollbackTo (NewConfiguration name data now) = 0"
  by (simp_all add: NewConfiguration_def)

lemma UpdateVersion_sel [simp]:
  "Name (UpdateVersion c data now) = Name c"
  "Version (UpdateVersion c data now) = go_int (Version c + 1)"
  "Data (UpdateVersion c data now) = data"
  "CreatedAt (UpdateVersion c data now) = CreatedAt c"
  "UpdatedAt (UpdateVersion c data now) = now"
  "RollbackFrom (UpdateVersion c data now) = 0"
  "RollbackTo (UpdateVersion c data now) = 0"
  by (simp_all add: UpdateVersion_def)

lemma NewVersionFromRollback_sel [simp]:
  "Name (NewVersionFromRollback c tv td now) = Name c"
  "Version (NewVersionFromRollback c tv td now) = go_int (Version c + 1)"
  "Data (NewVersionFromRollback c tv td now) = td"
  "CreatedAt (NewVersionFromRollback c tv td now) = CreatedAt c"
  "UpdatedAt (NewVersionFromRollback c tv td now) = now"
  "RollbackFrom (NewVersionFromRollback c tv td now) = Version c"
  "RollbackTo (NewVersionFromRollback c tv td now) = tv"
  by (simp_all add: NewVersionFromRollback_def)

lemma tables_configurations: "tables s' = tables s \<Longrightarrow> configurations s' = configurations s"
  by (simp add: tables_eq_iff)

lemma store_inv_Suc: "store_inv k s \<Longrightarrow> store_inv (Suc k) s"
  by (erule store_inv_mono) simp

lemma store_inv_read: "store_inv k s \<Longrightarrow> tables s' = tables s \<Longrightarrow> store_inv k s'"
  using store_inv_tables by blast

lemma uc_CreateConfiguration_inv:
  assumes inv: "store_inv k s"
  shows "store_inv (Suc k) (snd (uc_CreateConfiguration lib s name data now))"
proof -
  obtain r1 s1 where g: "repo_GetConfiguration s name = (r1, s1)" by fastforce
  obtain r2 s2 where sc: "repo_GetSchema s1 name = (r2, s2)" by fastforce
  obtain r3 s3 where cr: "repo_CreateConfiguration s2 (NewConfiguration name data now) = (r3, s3)"
    by fastforce
  obtain r4 s4 where st: "repo_StoreVersionData s3 name 1 data = (r4, s4)" by fastforce
  have i1: "store_inv k s1"
    using inv repo_GetConfiguration_tables [OF g] by (rule store_inv_read)
  have i2: "store_inv k s2"
    using i1 repo_GetSchema_tables [OF sc] by (rule store_inv_read)
  have i3: "store_inv (Suc k) s3"
  proof (cases r3)
    case None
    then show ?thesis using create_tx_inv(1) [OF i2] cr by simp
  next
    case (Some e)
    then show ?thesis
      using store_inv_read [OF store_inv_Suc [OF i2] repo_CreateConfiguration_failed] cr by simp
  qed
  have i4: "r3 = None \<Longrightarrow> store_inv (Suc k) s4"
    using store_data_inv [OF i3 _ st] create_tx_inv(2) [OF i2] cr by simp
  show ?thesis
    using store_inv_Suc [OF i1] store_inv_Suc [OF i2] i3 i4
    by (auto simp: uc_CreateConfiguration_def g sc cr st Let_def
        split: sum.splits option.splits)
qed

lemma write_new_version_inv:
  assumes inv: "store_inv k s" and k: "int k < max_int"
    and row: "configurations s (Name c) = Some row"
    and ver: "Version c = go_int (cfg_version row + 1)"
    and pl: "version_data s (Name c, cfg_version row) \<noteq> None"
    and tx: "repo_UpdateConfiguration s c = (r3, s3)"
    and st: "repo_StoreVersionData s3 (Name c) (Version c) d = (r4, s4)"
  shows "store_inv (Suc k) s3" and "r3 = None \<Longrightarrow> store_inv (Suc k) s4"
proof -
  show i3: "store_inv (Suc k) s3"
  proof (cases r3)
    case None
    then show ?thesis using update_tx_inv(1) [OF inv k row ver pl] tx by simp
  next
    case (Some e)
    then show ?thesis
      using store_inv_read [OF store_inv_Suc [OF inv] repo_UpdateConfiguration_failed] tx by simp
  qed
  show "r3 = None \<Longrightarrow> store_inv (Suc k) s4"
    using store_data_inv [OF i3 _ st] update_tx_inv(2) [OF inv k row ver pl] tx by simp
qed

lemma uc_UpdateConfiguration_inv:
  assumes inv: "store_inv k s" and k: "int k < max_int"
  shows "store_inv (Suc k) (snd (uc_UpdateConfiguration lib s name data now))"
proof -
  obtain r1 s1 where g: "repo_GetConfiguration s name = (r1, s1)" by fastforce
  obtain r2 s2 where sc: "repo_GetSchema s1 name = (r2, s2)" by fastforce
  have t1: "tables s1 = tables s" by (rule repo_GetConfiguration_tables [OF g])
  have t2: "tables s2 = tables s" using repo_GetSchema_tables [OF sc] t1 by simp
  have i1: "store_inv k s1" using inv t1 by (rule store_inv_read)
  have i2: "store_inv k s2" using inv t2 by (rule store_inv_read)
  show ?thesis
  proof (cases r1)
    case (Inl e)
    then show ?thesis using store_inv_Suc [OF i1] by (simp add: uc_UpdateConfiguration_def g)
  next
    case (Inr c)
    let ?n = "UpdateVersion c data now"
    obtain r3 s3 where tx: "repo_UpdateConfiguration s2 ?n = (r3, s3)" by fastforce
    obtain r4 s4 where st: "repo_StoreVersionData s3 name (go_int (Version c + 1)) data = (r4, s4)"
      by fastforce
    from repo_GetConfiguration_ok [OF g [unfolded Inr]]
    obtain row where row: "configurations s name = Some row" "Version c = cfg_version row"
      "Name c = name" and hd: "version_data s (name, cfg_version row) = Some (Data c)" by blast
    have row2: "configurations s2 (Name ?n) = Some row"
      using row tables_configurations [OF t2] by simp
    have ver: "Version ?n = go_int (cfg_version row + 1)" using row by simp
    have pl: "version_data s2 (Name ?n, cfg_version row) \<noteq> None"
      using hd row t2 by (simp add: tables_eq_iff)
    have st': "repo_StoreVersionData s3 (Name ?n) (Version ?n) data = (r4, s4)"
      using st row by simp
    note w = write_new_version_inv [OF i2 k row2 ver pl tx st']
    show ?thesis
    proof (cases "case r2 of Inr schema \<Rightarrow> ValidateJSON lib schema data | Inl _ \<Rightarrow> None")
      case (Some err)
      then show ?thesis
        using store_inv_Suc [OF i2] by (simp add: uc_UpdateConfiguration_def g sc Inr)
    next
      case None
      show ?thesis
      proof (cases r3)
        case (Some e)
        then show ?thesis
          using w(1) None by (simp add: uc_UpdateConfiguration_def g sc Inr tx Let_def)
      next
        case n3: None
        then show ?thesis
          using w(2) None
          by (cases r4) (simp_all add: uc_UpdateConfiguration_def g sc Inr tx st Let_def)
      qed
    qed
  qed
qed

lemma uc_RollbackConfiguration_inv:
  assumes inv: "store_inv k s" and k: "int k < max_int"
  shows "store_inv (Suc k) (snd (uc_RollbackConfiguration lib s name tv now))"
proof -
  obtain r1 s1 where g: "repo_GetConfiguration s name = (r1, s1)" by fastforce
  obtain r2 s2 where gd: "repo_GetVersionData s1 name tv = (r2, s2)" by fastforce
  have t1: "tables s1 = tables s" by (rule repo_GetConfiguration_tables [OF g])
  have t2: "tables s2 = tables s" using repo_GetVersionData_tables [OF gd] t1 by simp
  have i1: "store_inv k s1" using inv t1 by (rule store_inv_read)
  have i2: "store_inv k s2" using inv t2 by (rule store_inv_read)
  show ?thesis
  proof (cases r1)
    case (Inl e)
    then show ?thesis using store_inv_Suc [OF i1] by (simp add: uc_RollbackConfiguration_def g)
  next
    case c: (Inr c)
    show ?thesis
    proof (cases r2)
      case (Inl e)
      then show ?thesis
        using store_inv_Suc [OF i2] by (simp add: uc_RollbackConfiguration_def g gd c)
    next
      case (Inr td)
      let ?n = "NewVersionFromRollback c tv td now"
      obtain r3 s3 where tx: "repo_UpdateConfiguration s2 ?n = (r3, s3)" by fastforce
      obtain r4 s4 where st: "repo_StoreVersionData s3 name (go_int (Version c + 1)) td = (r4, s4)"
        by fastforce
      from repo_GetConfiguration_ok [OF g [unfolded c]]
      obtain row where row: "configurations s name = Some row" "Version c = cfg_version row"
        "Name c = name" and hd: "version_data s (name, cfg_version row) = Some (Data c)"
        by blast
      have row2: "configurations s2 (Name ?n) = Some row"
        using row tables_configurations [OF t2] by simp
      have ver: "Version ?n = go_int (cfg_version row + 1)" using row by simp
      have pl: "version_data s2 (Name ?n, cfg_version row) \<noteq> None"
        using hd row t2 by (simp add: tables_eq_iff)
      have st': "repo_StoreVersionData s3 (Name ?n) (Version ?n) td = (r4, s4)"
        using st row by simp
      note w = write_new_version_inv [OF i2 k row2 ver pl tx st']
      show ?thesis
      proof (cases r3)
        case (Some e)
        then show ?thesis
          using w(1) by (simp add: uc_RollbackConfiguration_def g gd c Inr tx Let_def)
      next
        case None
        then show ?thesis
          using w(2)
          by (cases r4) (simp_all add: uc_RollbackConfiguration_def g gd c Inr tx st Let_def)
      qed
    qed
  qed
qed

lemma uc_GetConfiguration_tables:
  "tables (snd (uc_GetConfiguration lib s name)) = tables s"
  by (auto simp: uc_GetConfiguration_def split: prod.splits sum.splits
      dest: repo_GetConfiguration_tables)

lemma uc_GetConfigurationVersion_tables:
  "tables (snd (uc_GetConfigurationVersion lib s name v)) = tables s"
  by (auto simp: uc_GetConfigurationVersion_def split: prod.splits sum.splits
      dest: repo_GetConfigurationVersion_tables)

lemma uc_ListConfigurationVersions_tables:
  "tables (snd (uc_ListConfigurationVersions lib s name)) = tables s"
  by (auto simp: uc_ListConfigurationVersions_def split: prod.splits sum.splits
      dest!: repo_GetConfiguration_tables repo_ListConfigurationVersions_tables)

lemma uc_GetSchema_tables:
  "tables (snd (uc_GetSchema lib s name)) = tables s"
  by (auto simp: uc_GetSchema_def split: prod.splits sum.splits
      dest: repo_GetSchema_tables)

lemma uc_ValidateConfigurationData_tables:
  "tables (snd (uc_ValidateConfigurationData lib s name data)) = tables s"
  by (auto simp: uc_ValidateConfigurationData_def split: prod.splits sum.splits
      dest: repo_GetSchema_tables)

lemma uc_RegisterSchema_inv:
  assumes inv: "store_inv k s"
  shows "store_inv k (snd (uc_RegisterSchema lib s name schema))"
proof -
  obtain r s1 where rs: "repo_RegisterSchema s name schema = (r, s1)" by fastforce
  have "store_inv k s1"
  proof (cases r)
    case None
    note d = repo_RegisterSchema_done [OF rs [unfolded None]]
    show ?thesis using inv unfolding store_inv_def by (simp add: d versions_of_cong [OF d(2)])
  next
    case (Some e)
    then show ?thesis using store_inv_read [OF inv repo_RegisterSchema_failed] rs by simp
  qed
  then show ?thesis
    using inv by (auto simp: uc_RegisterSchema_def rs split: option.splits)
qed

lemma snd_case_result [simp]:
  "snd (case p of (Inl e, s') \<Rightarrow> (f e, s') | (Inr x, s') \<Rightarrow> (g x, s')) = snd p"
  by (cases p; cases "fst p") auto

lemma exec_inv:
  assumes inv: "store_inv k s" and k: "int k < max_int"
  shows "store_inv (Suc k) (snd (exec lib s c))"
proof (cases c)
  case (Create name data now)
  then show ?thesis
    using uc_CreateConfiguration_inv [OF inv, of lib name data now]
    by simp
next
  case (Update name data now)
  then show ?thesis
    using uc_UpdateConfiguration_inv [OF inv k, of lib name data now]
    by simp
next
  case (Rollback name tv now)
  then show ?thesis
    using uc_RollbackConfiguration_inv [OF inv k, of lib name tv now]
    by simp
next
  case (Get name)
  then show ?thesis
    using store_inv_read [OF store_inv_Suc [OF inv] uc_GetConfiguration_tables [of lib s name]]
    by simp
next
  case (GetVersion name v)
  then show ?thesis
    using store_inv_read [OF store_inv_Suc [OF inv]
        uc_GetConfigurationVersion_tables [of lib s name v]]
    by simp
next
  case (ListVersions name)
  then show ?thesis
    using store_inv_read [OF store_inv_Suc [OF inv]
        uc_ListConfigurationVersions_tables [of lib s name]]
    by simp
next
  case (RegisterSchema name schema)
  then show ?thesis
    using store_inv_Suc [OF uc_RegisterSchema_inv [OF inv, of lib name schema]] by simp
next
  case (GetSchema name)
  then show ?thesis
    using store_inv_read [OF store_inv_Suc [OF inv] uc_GetSchema_tables [of lib s name]]
    by simp
next
  case (ValidateData name data)
  then show ?thesis
    using store_inv_read [OF store_inv_Suc [OF inv]
        uc_ValidateConfigurationData_tables [of lib s name data]]
    by simp
qed

lemma run_inv:
  "store_inv k s \<Longrightarrow> int (k + length cs) \<le> max_int \<Longrightarrow>
   store_inv (k + length cs) (run lib s cs)"
proof (induction cs arbitrary: k s)
  case Nil
  then show ?case by simp
next
  case (Cons c cs)
  have "store_inv (Suc k) (snd (exec lib s c))"
    using Cons.prems by (intro exec_inv) simp_all
  from Cons.IH [OF this] Cons.prems(2) show ?case by simp
qed

lemma reachable_inv:
  assumes "int (length cs) \<le> max_int"
  shows "store_inv (length cs) (run lib (empty_db fs) cs)"
  using run_inv [OF store_inv_empty [of fs], of cs lib] assms by simp

section \<open>Evaluation\<close>

lemmas repo_defs =
  repo_CreateConfiguration_def repo_UpdateConfiguration_def repo_GetConfiguration_def
  repo_GetConfigurationVersion_def repo_ListConfigurationVersions_def repo_RegisterSchema_def
  repo_GetSchema_def repo_StoreVersionData_def repo_GetVersionData_def
  fault_now_def advance_def select_version_def select_versions_def empty_db_def tables_def

lemmas uc_defs =
  uc_CreateConfiguration_def uc_UpdateConfiguration_def uc_GetConfiguration_def
  uc_GetConfigurationVersion_def uc_ListConfigurationVersions_def uc_RollbackConfiguration_def
  uc_RegisterSchema_def uc_GetSchema_def uc_ValidateConfigurationData_def
  ValidateJSON_def ValidateSchemaDefinition_def
  NewConfiguration_def UpdateVersion_def NewVersionFromRollback_def go_int_def

lemmas err_defs =
  NewAppError_def NewNotFoundError_def NewAlreadyExistsError_def NewInvalidRequestError_def
  NewValidationFailedError_def NewInternalError_def

lemma run_demo: "run demo_lib (empty_db []) demo_calls = demo_db"
  by (simp add: demo_calls_def demo_db_def demo_lib_def repo_defs uc_defs err_defs)

section \<open>The claims\<close>

lemma sorted_versions_of:
  assumes "versions_of s name = [1..h]"
  shows "map ver_version (select_versions s name) = [1..h]"
proof -
  let ?rows = "filter (\<lambda>r. ver_name r = name) (versions s)"
  have "sorted (map ver_version ?rows)"
    using assms by (simp add: versions_of_def)
  then have "sort_key ver_version ?rows = ?rows"
    by (rule sort_key_id_if_sorted)
  then show ?thesis
    using assms by (simp add: select_versions_def versions_of_def)
qed

text \<open>
  Claim C5. In every store reached from the empty database by a history of calls (of fewer
  than \<open>2^63\<close> calls, whatever their outcome and whatever failures the database
  injects), for every name with a configuration row: the version numbers of its version
  records are exactly \<open>1, ..., head\<close>, each once, so the head of the row is their
  maximum; the listing query returns them in that order.
\<close>

theorem head_is_max_and_versions_contiguous:
  assumes "int (length calls) \<le> max_int"
    and "configurations (run lib (empty_db fs) calls) name = Some row"
  shows "versions_of (run lib (empty_db fs) calls) name = [1..cfg_version row] \<and>
         1 \<le> cfg_version row \<and>
         Max (set (versions_of (run lib (empty_db fs) calls) name)) = cfg_version row \<and>
         set (versions_of (run lib (empty_db fs) calls) name) = {1..cfg_version row} \<and>
         distinct (versions_of (run lib (empty_db fs) calls) name) \<and>
         map ver_version (select_versions (run lib (empty_db fs) calls) name) =
           [1..cfg_version row]"
proof -
  let ?s = "run lib (empty_db fs) calls"
  have inv: "store_inv (length calls) ?s"
    using assms(1) by (rule reachable_inv)
  have v: "versions_of ?s name = [1..cfg_version row]" and h: "1 \<le> cfg_version row"
    using inv assms(2) by (auto simp: store_inv_def)
  have "Max {1..cfg_version row} = cfg_version row"
    using h by (intro Max_eqI) auto
  then show ?thesis
    using v h sorted_versions_of [OF v] by simp
qed

theorem head_is_max_and_versions_contiguous_witness:
  "int (length demo_calls) \<le> max_int \<and>
   configurations (run demo_lib (empty_db []) demo_calls) ''a'' =
     Some \<lparr>cfg_version = 3, cfg_created_at = 10, cfg_updated_at = 30,
           cfg_rollback_from = Some 2, cfg_rollback_to = Some 1\<rparr> \<and>
   versions_of (run demo_lib (empty_db []) demo_calls) ''a'' = [1, 2, 3] \<and>
   Max (set (versions_of (run demo_lib (empty_db []) demo_calls) ''a'')) = 3"
proof -
  have l: "int (length demo_calls) \<le> max_int"
    by (simp add: demo_calls_def max_int_def)
  have r: "configurations (run demo_lib (empty_db []) demo_calls) ''a'' =
     Some \<lparr>cfg_version = 3, cfg_created_at = 10, cfg_updated_at = 30,
           cfg_rollback_from = Some 2, cfg_rollback_to = Some 1\<rparr>"
    by (simp add: run_demo demo_db_def)
  have u: "[1..3::int] = [1, 2, 3]"
    by (simp add: upto.simps)
  show ?thesis
    using head_is_max_and_versions_contiguous [OF l r] l r u by simp
qed

lemma find_append_new:
  "find P xs = None \<Longrightarrow> P r \<Longrightarrow> find P (xs @ [r]) = Some r"
  by (induction xs) (auto split: if_splits)

lemma find_append_other:
  "\<not> P r \<Longrightarrow> find P (xs @ [r]) = find P xs"
  by (induction xs) auto

lemma uc_CreateConfiguration_ok:
  assumes "uc_CreateConfiguration lib s name data now = (Inr c, s')"
  shows "c = NewConfiguration name data now"
    and "configurations s name = None"
    and "select_version s name 1 = None"
    and "configurations s' = (configurations s)(name \<mapsto>
          \<lparr>cfg_version = 1, cfg_created_at = now, cfg_updated_at = now,
           cfg_rollback_from = None, cfg_rollback_to = None\<rparr>)"
    and "versions s' = versions s @
          [\<lparr>ver_name = name, ver_version = 1, ver_created_at = now, ver_is_rollback = False\<rparr>]"
    and "version_data s' = (version_data s)((name, 1) \<mapsto> data)"
    and "schemas s' = schemas s"
proof -
  obtain r1 s1 where g: "repo_GetConfiguration s name = (r1, s1)" by fastforce
  obtain r2 s2 where sc: "repo_GetSchema s1 name = (r2, s2)" by fastforce
  obtain r3 s3 where cr: "repo_CreateConfiguration s2 (NewConfiguration name data now) = (r3, s3)"
    by fastforce
  obtain r4 s4 where st: "repo_StoreVersionData s3 name 1 data = (r4, s4)" by fastforce
  from assms have ok: "r3 = None" "r4 = None" "s' = s4" "c = NewConfiguration name data now"
    by (auto simp: uc_CreateConfiguration_def g sc cr st Let_def
        split: sum.splits option.splits)
  have t2: "tables s2 = tables s"
    using repo_GetConfiguration_tables [OF g] repo_GetSchema_tables [OF sc] by simp
  note t = t2 [unfolded tables_eq_iff]
  note d = repo_CreateConfiguration_done [OF cr [unfolded ok]]
  note e = repo_StoreVersionData_done [OF st [unfolded ok]]
  show "c = NewConfiguration name data now" by (rule ok)
  show "configurations s name = None" using d(1) t by simp
  show "select_version s name 1 = None" using d(2) t by (simp add: select_version_def)
  show "configurations s' = (configurations s)(name \<mapsto>
          \<lparr>cfg_version = 1, cfg_created_at = now, cfg_updated_at = now,
           cfg_rollback_from = None, cfg_rollback_to = None\<rparr>)"
    using d(3) e(1) t ok by simp
  show "versions s' = versions s @
          [\<lparr>ver_name = name, ver_version = 1, ver_created_at = now, ver_is_rollback = False\<rparr>]"
    using d(4) e(2) t ok by simp
  show "version_data s' = (version_data s)((name, 1) \<mapsto> data)"
    using d(5) e(3) t ok by simp
  show "schemas s' = schemas s"
    using d(6) e(4) t ok by simp
qed

text \<open>
  Claim C9. A successful \<open>Create(name, data)\<close> returns a configuration of version \<open>1\<close>
  whose \<open>createdAt\<close> equals its \<open>updatedAt\<close>, and \<open>GetVersion(name, 1)\<close> on the store it
  leaves returns \<open>data\<close>.
\<close>

theorem create_roundtrip:
  assumes "uc_CreateConfiguration lib s name data now = (Inr c, s')"
  shows "Version c = 1 \<and> CreatedAt c = UpdatedAt c \<and> Data c = data \<and>
         (\<exists>c' s''. uc_GetConfigurationVersion lib (tables s') name 1 = (Inr c', s'') \<and>
            Data c' = data)"
proof -
  note k = uc_CreateConfiguration_ok [OF assms]
  have f: "select_version s' name 1 =
      Some \<lparr>ver_name = name, ver_version = 1, ver_created_at = now, ver_is_rollback = False\<rparr>"
    unfolding select_version_def k(5)
    by (rule find_append_new) (use k(3) in \<open>simp_all add: select_version_def\<close>)
  have "repo_GetConfigurationVersion (tables s') name 1 =
      (Inr \<lparr>Name = name, Version = 1, Data = data, CreatedAt = now, UpdatedAt = now,
            RollbackFrom = 0, RollbackTo = 0\<rparr>, tables s')"
    by (simp add: repo_GetConfigurationVersion_def f k(4) k(6))
  then show ?thesis
    by (simp add: k(1) uc_GetConfigurationVersion_def)
qed

theorem create_roundtrip_witness:
  "uc_CreateConfiguration demo_lib (empty_db []) ''a'' ''{\"k\":1}'' 10 =
     (Inr (NewConfiguration ''a'' ''{\"k\":1}'' 10),
      snd (uc_CreateConfiguration demo_lib (empty_db []) ''a'' ''{\"k\":1}'' 10)) \<and>
   Version (NewConfiguration ''a'' ''{\"k\":1}'' 10) = 1 \<and>
   (\<exists>c' s''. uc_GetConfigurationVersion demo_lib
        (tables (snd (uc_CreateConfiguration demo_lib (empty_db []) ''a'' ''{\"k\":1}'' 10)))
        ''a'' 1 = (Inr c', s'') \<and> Data c' = ''{\"k\":1}'')"
proof -
  have ok: "uc_CreateConfiguration demo_lib (empty_db []) ''a'' ''{\"k\":1}'' 10 =
     (Inr (NewConfiguration ''a'' ''{\"k\":1}'' 10),
      snd (uc_CreateConfiguration demo_lib (empty_db []) ''a'' ''{\"k\":1}'' 10))"
    by (simp add: demo_lib_def repo_defs uc_defs err_defs)
  show ?thesis
    using create_roundtrip [OF ok] ok by simp
qed

lemma write_new_version_ok:
  assumes tx: "repo_UpdateConfiguration s2 n = (None, s3)"
    and st: "repo_StoreVersionData s3 (Name n) (Version n) d = (None, s4)"
    and row: "configurations s2 (Name n) = Some row"
  shows "select_version s2 (Name n) (Version n) = None"
    and "configurations s4 = (configurations s2)(Name n \<mapsto>
           row\<lparr>cfg_version := Version n, cfg_updated_at := UpdatedAt n,
               cfg_rollback_from := Some (RollbackFrom n),
               cfg_rollback_to := Some (RollbackTo n)\<rparr>)"
    and "versions s4 = versions s2 @
          [\<lparr>ver_name = Name n, ver_version = Version n,
            ver_created_at = UpdatedAt n, ver_is_rollback = (RollbackFrom n > 0)\<rparr>]"
    and "version_data s4 = (version_data s2)((Name n, Version n) \<mapsto> d)"
    and "schemas s4 = schemas s2"
proof -
  note d = repo_UpdateConfiguration_done [OF tx]
  note e = repo_StoreVersionData_done [OF st]
  show "select_version s2 (Name n) (Version n) = None" by (rule d(1))
  show "configurations s4 = (configurations s2)(Name n \<mapsto>
           row\<lparr>cfg_version := Version n, cfg_updated_at := UpdatedAt n,
               cfg_rollback_from := Some (RollbackFrom n),
               cfg_rollback_to := Some (RollbackTo n)\<rparr>)"
    using d(2) e(1) row by simp
  show "versions s4 = versions s2 @
          [\<lparr>ver_name = Name n, ver_version = Version n,
            ver_created_at = UpdatedAt n, ver_is_rollback = (RollbackFrom n > 0)\<rparr>]"
    using d(3) e(2) by simp
  show "version_data s4 = (version_data s2)((Name n, Version n) \<mapsto> d)"
    using d(4) e(3) by simp
  show "schemas s4 = schemas s2"
    using d(5) e(4) by simp
qed

lemma uc_UpdateConfiguration_ok:
  assumes ok: "uc_UpdateConfiguration lib s name data now = (Inr c, s')"
  obtains row d0 where
    "configurations s name = Some row"
    "version_data s (name, cfg_version row) = Some d0"
    "c = \<lparr>Name = name, Version = go_int (cfg_version row + 1), Data = data,
          CreatedAt = cfg_created_at row, UpdatedAt = now, RollbackFrom = 0, RollbackTo = 0\<rparr>"
    "select_version s name (Version c) = None"
    "configurations s' = (configurations s)(name \<mapsto>
           row\<lparr>cfg_version := Version c, cfg_updated_at := now,
               cfg_rollback_from := Some 0, cfg_rollback_to := Some 0\<rparr>)"
    "versions s' = versions s @
          [\<lparr>ver_name = name, ver_version = Version c, ver_created_at = now,
            ver_is_rollback = False\<rparr>]"
    "version_data s' = (version_data s)((name, Version c) \<mapsto> data)"
    "schemas s' = schemas s"
proof -
  obtain r1 s1 where g: "repo_GetConfiguration s name = (r1, s1)" by fastforce
  obtain r2 s2 where sc: "repo_GetSchema s1 name = (r2, s2)" by fastforce
  from ok obtain c0 where r1: "r1 = Inr c0"
    by (cases r1) (simp_all add: uc_UpdateConfiguration_def g)
  let ?n = "UpdateVersion c0 data now"
  obtain r3 s3 where tx: "repo_UpdateConfiguration s2 ?n = (r3, s3)" by fastforce
  obtain r4 s4 where st: "repo_StoreVersionData s3 name (go_int (Version c0 + 1)) data = (r4, s4)"
    by fastforce
  from ok have fin: "r3 = None" "r4 = None" "s' = s4" "c = ?n"
    by (auto simp: uc_UpdateConfiguration_def g r1 sc tx st Let_def
        split: sum.splits option.splits)
  from repo_GetConfiguration_ok [OF g [unfolded r1]]
  obtain row where row: "configurations s name = Some row" "Version c0 = cfg_version row"
    "CreatedAt c0 = cfg_created_at row" "Name c0 = name"
    "version_data s (name, cfg_version row) = Some (Data c0)" by blast
  have t2: "tables s2 = tables s"
    using repo_GetConfiguration_tables [OF g] repo_GetSchema_tables [OF sc] by simp
  note t = t2 [unfolded tables_eq_iff]
  have row2: "configurations s2 (Name ?n) = Some row" using row t by simp
  have st': "repo_StoreVersionData s3 (Name ?n) (Version ?n) data = (None, s4)"
    using st row fin by simp
  note w = write_new_version_ok [OF tx [unfolded fin] st' row2]
  have sv: "select_version s2 = select_version s"
    using t by (simp add: select_version_def fun_eq_iff)
  show thesis
  proof (rule that [of row "Data c0"])
    show "configurations s name = Some row" by (rule row)
    show "version_data s (name, cfg_version row) = Some (Data c0)" by (rule row)
    show c: "c = \<lparr>Name = name, Version = go_int (cfg_version row + 1), Data = data,
          CreatedAt = cfg_created_at row, UpdatedAt = now, RollbackFrom = 0, RollbackTo = 0\<rparr>"
      using fin row by (simp add: UpdateVersion_def)
    show "select_version s name (Version c) = None"
      using w(1) sv row fin by simp
    show "configurations s' = (configurations s)(name \<mapsto>
           row\<lparr>cfg_version := Version c, cfg_updated_at := now,
               cfg_rollback_from := Some 0, cfg_rollback_to := Some 0\<rparr>)"
      using w(2) t row fin by simp
    show "versions s' = versions s @
          [\<lparr>ver_name = name, ver_version = Version c, ver_created_at = now,
            ver_is_rollback = False\<rparr>]"
      using w(3) t row fin by simp
    show "version_data s' = (version_data s)((name, Version c) \<mapsto> data)"
      using w(4) t row fin by simp
    show "schemas s' = schemas s"
      using w(5) t fin by simp
  qed
qed

lemma uc_RollbackConfiguration_ok:
  assumes ok: "uc_RollbackConfiguration lib s name tv now = (Inr c, s')"
  obtains row d0 td where
    "configurations s name = Some row"
    "version_data s (name, cfg_version row) = Some d0"
    "version_data s (name, tv) = Some td"
    "c = \<lparr>Name = name, Version = go_int (cfg_version row + 1), Data = td,
          CreatedAt = cfg_created_at row, UpdatedAt = now,
          RollbackFrom = cfg_version row, RollbackTo = tv\<rparr>"
    "select_version s name (Version c) = None"
    "configurations s' = (configurations s)(name \<mapsto>
           row\<lparr>cfg_version := Version c, cfg_updated_at := now,
               cfg_rollback_from := Some (cfg_version row), cfg_rollback_to := Some tv\<rparr>)"
    "versions s' = versions s @
          [\<lparr>ver_name = name, ver_version = Version c, ver_created_at = now,
            ver_is_rollback = (cfg_version row > 0)\<rparr>]"
    "version_data s' = (version_data s)((name, Version c) \<mapsto> td)"
    "schemas s' = schemas s"
proof -
  obtain r1 s1 where g: "repo_GetConfiguration s name = (r1, s1)" by fastforce
  obtain r2 s2 where gd: "repo_GetVersionData s1 name tv = (r2, s2)" by fastforce
  from ok obtain c0 where r1: "r1 = Inr c0"
    by (cases r1) (simp_all add: uc_RollbackConfiguration_def g)
  from ok obtain td where r2: "r2 = Inr td"
    by (cases r2) (simp_all add: uc_RollbackConfiguration_def g r1 gd)
  let ?n = "NewVersionFromRollback c0 tv td now"
  obtain r3 s3 where tx: "repo_UpdateConfiguration s2 ?n = (r3, s3)" by fastforce
  obtain r4 s4 where st: "repo_StoreVersionData s3 name (go_int (Version c0 + 1)) td = (r4, s4)"
    by fastforce
  from ok have fin: "r3 = None" "r4 = None" "s' = s4" "c = ?n"
    by (auto simp: uc_RollbackConfiguration_def g r1 gd r2 tx st Let_def
        split: sum.splits option.splits)
  from repo_GetConfiguration_ok [OF g [unfolded r1]]
  obtain row where row: "configurations s name = Some row" "Version c0 = cfg_version row"
    "CreatedAt c0 = cfg_created_at row" "Name c0 = name"
    "version_data s (name, cfg_version row) = Some (Data c0)" by blast
  have t1: "tables s1 = tables s" by (rule repo_GetConfiguration_tables [OF g])
  have t2: "tables s2 = tables s"
    using t1 repo_GetVersionData_tables [OF gd] by simp
  note t = t2 [unfolded tables_eq_iff]
  have td: "version_data s (name, tv) = Some td"
    using repo_GetVersionData_ok [OF gd [unfolded r2]] t1 [unfolded tables_eq_iff] by simp
  have row2: "configurations s2 (Name ?n) = Some row" using row t by simp
  have st': "repo_StoreVersionData s3 (Name ?n) (Version ?n) td = (None, s4)"
    using st row fin by simp
  note w = write_new_version_ok [OF tx [unfolded fin] st' row2]
  have sv: "select_version s2 = select_version s"
    using t by (simp add: select_version_def fun_eq_iff)
  show thesis
  proof (rule that [of row "Data c0" td])
    show "configurations s name = Some row" by (rule row)
    show "version_data s (name, cfg_version row) = Some (Data c0)" by (rule row)
    show "version_data s (name, tv) = Some td" by (rule td)
    show c: "c = \<lparr>Name = name, Version = go_int (cfg_version row + 1), Data = td,
          CreatedAt = cfg_created_at row, UpdatedAt = now,
          RollbackFrom = cfg_version row, RollbackTo = tv\<rparr>"
      using fin row by (simp add: NewVersionFromRollback_def)
    show "select_version s name (Version c) = None"
      using w(1) sv row fin by simp
    show "configurations s' = (configurations s)(name \<mapsto>
           row\<lparr>cfg_version := Version c, cfg_updated_at := now,
               cfg_rollback_from := Some (cfg_version row), cfg_rollback_to := Some tv\<rparr>)"
      using w(2) t row fin by simp
    show "versions s' = versions s @
          [\<lparr>ver_name = name, ver_version = Version c, ver_created_at = now,
            ver_is_rollback = (cfg_version row > 0)\<rparr>]"
      using w(3) t row fin by simp
    show "version_data s' = (version_data s)((name, Version c) \<mapsto> td)"
      using w(4) t row fin by simp
    show "schemas s' = schemas s"
      using w(5) t fin by simp
  qed
qed

text \<open>A read of the head from a store with no failure pending.\<close>

lemma repo_GetConfiguration_quiet:
  assumes "configurations s name = Some row"
    and "version_data s (name, cfg_version row) = Some d"
  shows "repo_GetConfiguration (tables s) name =
     (Inr \<lparr>Name = name, Version = cfg_version row, Data = d,
           CreatedAt = cfg_created_at row, UpdatedAt = cfg_updated_at row,
           RollbackFrom = (case cfg_rollback_from row of None \<Rightarrow> 0 | Some v \<Rightarrow> v),
           RollbackTo = (case cfg_rollback_to row of None \<Rightarrow> 0 | Some v \<Rightarrow> v)\<rparr>,
      tables s)"
  using assms by (simp add: repo_GetConfiguration_def)

text \<open>
  Claim C10. A successful \<open>Update(name, data)\<close> returns a configuration whose
  \<open>rollbackFrom\<close> and \<open>rollbackTo\<close> are zero, and so does \<open>Get(name)\<close> on the store it
  leaves, whatever provenance the row held before: the \<^verbatim>\<open>UPDATE\<close> statement overwrites
  both columns.
\<close>

theorem update_clears_rollback_provenance:
  assumes "uc_UpdateConfiguration lib s name data now = (Inr c, s')"
  shows "RollbackFrom c = 0 \<and> RollbackTo c = 0 \<and>
         (\<exists>c' s''. uc_GetConfiguration lib (tables s') name = (Inr c', s'') \<and>
            Version c' = Version c \<and> RollbackFrom c' = 0 \<and> RollbackTo c' = 0)"
proof -
  from assms obtain row d0 where
    c: "c = \<lparr>Name = name, Version = go_int (cfg_version row + 1), Data = data,
          CreatedAt = cfg_created_at row, UpdatedAt = now, RollbackFrom = 0, RollbackTo = 0\<rparr>"
    and cf: "configurations s' = (configurations s)(name \<mapsto>
           row\<lparr>cfg_version := Version c, cfg_updated_at := now,
               cfg_rollback_from := Some 0, cfg_rollback_to := Some 0\<rparr>)"
    and vd: "version_data s' = (version_data s)((name, Version c) \<mapsto> data)"
    by (rule uc_UpdateConfiguration_ok)
  let ?row = "row\<lparr>cfg_version := Version c, cfg_updated_at := now,
               cfg_rollback_from := Some 0, cfg_rollback_to := Some 0\<rparr>"
  have "configurations s' name = Some ?row" by (simp add: cf)
  moreover have "version_data s' (name, cfg_version ?row) = Some data" by (simp add: vd)
  ultimately have "repo_GetConfiguration (tables s') name =
     (Inr \<lparr>Name = name, Version = cfg_version ?row, Data = data,
           CreatedAt = cfg_created_at ?row, UpdatedAt = cfg_updated_at ?row,
           RollbackFrom = (case cfg_rollback_from ?row of None \<Rightarrow> 0 | Some v \<Rightarrow> v),
           RollbackTo = (case cfg_rollback_to ?row of None \<Rightarrow> 0 | Some v \<Rightarrow> v)\<rparr>,
      tables s')"
    by (rule repo_GetConfiguration_quiet)
  then show ?thesis
    by (simp add: uc_GetConfiguration_def c)
qed

theorem update_clears_rollback_provenance_witness:
  "uc_GetConfiguration demo_lib demo_db ''a'' =
     (Inr \<lparr>Name = ''a'', Version = 3, Data = ''{\"k\":1}'', CreatedAt = 10, UpdatedAt = 30,
           RollbackFrom = 2, RollbackTo = 1\<rparr>, demo_db) \<and>
   fst (uc_UpdateConfiguration demo_lib demo_db ''a'' ''{\"k\":3}'' 40) =
     Inr \<lparr>Name = ''a'', Version = 4, Data = ''{\"k\":3}'', CreatedAt = 10, UpdatedAt = 40,
          RollbackFrom = 0, RollbackTo = 0\<rparr> \<and>
   (\<exists>c' s''. uc_GetConfiguration demo_lib
        (tables (snd (uc_UpdateConfiguration demo_lib demo_db ''a'' ''{\"k\":3}'' 40))) ''a'' =
        (Inr c', s'') \<and> Version c' = 4 \<and> RollbackFrom c' = 0 \<and> RollbackTo c' = 0)"
proof -
  have g: "uc_GetConfiguration demo_lib demo_db ''a'' =
     (Inr \<lparr>Name = ''a'', Version = 3, Data = ''{\"k\":1}'', CreatedAt = 10, UpdatedAt = 30,
           RollbackFrom = 2, RollbackTo = 1\<rparr>, demo_db)"
    by (simp add: demo_db_def demo_lib_def repo_defs uc_defs err_defs)
  have fu: "fst (uc_UpdateConfiguration demo_lib demo_db ''a'' ''{\"k\":3}'' 40) =
     Inr \<lparr>Name = ''a'', Version = 4, Data = ''{\"k\":3}'', CreatedAt = 10, UpdatedAt = 40,
          RollbackFrom = 0, RollbackTo = 0\<rparr>"
    by (simp add: demo_db_def demo_lib_def repo_defs uc_defs err_defs)
  then have u: "uc_UpdateConfiguration demo_lib demo_db ''a'' ''{\"k\":3}'' 40 =
     (Inr \<lparr>Name = ''a'', Version = 4, Data = ''{\"k\":3}'', CreatedAt = 10, UpdatedAt = 40,
           RollbackFrom = 0, RollbackTo = 0\<rparr>,
      snd (uc_UpdateConfiguration demo_lib demo_db ''a'' ''{\"k\":3}'' 40))"
    by (metis prod.collapse)
  show ?thesis
    using update_clears_rollback_provenance [OF u] g fu by simp
qed

lemma reachable_head:
  assumes len: "int (length calls) < max_int"
    and row: "configurations (run lib (empty_db fs) calls) name = Some row"
  shows "1 \<le> cfg_version row" and "cfg_version row < max_int"
    and "go_int (cfg_version row + 1) = cfg_version row + 1"
    and "versions_of (run lib (empty_db fs) calls) name = [1..cfg_version row]"
proof -
  have "store_inv (length calls) (run lib (empty_db fs) calls)"
    using len by (intro reachable_inv) simp
  then have a: "versions_of (run lib (empty_db fs) calls) name = [1..cfg_version row] \<and>
      1 \<le> cfg_version row \<and> cfg_version row \<le> int (length calls)"
    using row unfolding store_inv_def by blast
  show h: "1 \<le> cfg_version row" using a by simp
  show v: "cfg_version row < max_int" using a len by simp
  show "versions_of (run lib (empty_db fs) calls) name = [1..cfg_version row]"
    using a by simp
  show "go_int (cfg_version row + 1) = cfg_version row + 1"
    using h v by (intro go_int_id) (simp_all add: max_int_def)
qed

lemma select_version_append_other:
  assumes "versions s' = versions s @ [r]" and "ver_name r \<noteq> name \<or> ver_version r \<noteq> v"
  shows "select_version s' name v = select_version s name v"
  using assms by (auto simp: select_version_def find_append_other)

lemma select_version_append_new:
  assumes "versions s' = versions s @ [r]" and "select_version s (ver_name r) (ver_version r) = None"
  shows "select_version s' (ver_name r) (ver_version r) = Some r"
  using assms by (simp add: select_version_def find_append_new)

lemma length_select_versions_append:
  assumes "versions s' = versions s @ [r]" and "ver_name r = name"
  shows "length (select_versions s' name) = length (select_versions s name) + 1"
  using assms by (simp add: select_versions_def)

lemma uc_ListConfigurationVersions_quiet:
  assumes "configurations s name = Some row"
    and "version_data s (name, cfg_version row) = Some d"
  shows "uc_ListConfigurationVersions lib (tables s) name =
     (Inr \<lparr>VL_Name = name,
           Versions = map (\<lambda>r. \<lparr>VI_Version = ver_version r, VI_CreatedAt = ver_created_at r,
                                 IsRollback = ver_is_rollback r\<rparr>)
                        (select_versions s name)\<rparr>, tables s)"
proof -
  have "faults (tables s) = []" by (simp add: tables_def)
  then have "rows_loop (tables s) (select_versions s name) [] =
     (Inr (map (\<lambda>r. \<lparr>VI_Version = ver_version r, VI_CreatedAt = ver_created_at r,
                         IsRollback = ver_is_rollback r\<rparr>) (select_versions s name)),
      tables s)"
    by (simp add: rows_loop_no_fault)
  then show ?thesis
    using assms
    by (simp add: uc_ListConfigurationVersions_def repo_GetConfiguration_quiet
        repo_ListConfigurationVersions_def)
qed

text \<open>
  Claim C6. In a store reached by a history of fewer than \<open>2^63 - 1\<close> calls, a successful
  \<open>Update(name, data)\<close> on a configuration whose row has head \<open>N\<close> and creation time \<open>t\<close>
  returns version \<open>N + 1\<close> with \<open>createdAt = t\<close>; \<open>ListVersions(name)\<close> has exactly one
  more entry afterwards than before; and for every \<open>M \<le> N\<close>, \<open>GetVersion(name, M)\<close>
  returns afterwards what it returned before.
\<close>

theorem update_appends_one_version:
  assumes len: "int (length calls) < max_int"
    and s: "s = run lib (empty_db fs) calls"
    and row: "configurations s name = Some row"
    and ok: "uc_UpdateConfiguration lib s name data now = (Inr c, s')"
  shows "Version c = cfg_version row + 1 \<and> CreatedAt c = cfg_created_at row \<and>
         (\<exists>l l' t t'.
            uc_ListConfigurationVersions lib (tables s) name = (Inr l, t) \<and>
            uc_ListConfigurationVersions lib (tables s') name = (Inr l', t') \<and>
            length (Versions l') = length (Versions l) + 1) \<and>
         (\<forall>m\<le>cfg_version row.
            fst (uc_GetConfigurationVersion lib (tables s') name m) =
            fst (uc_GetConfigurationVersion lib (tables s) name m))"
proof -
  from ok obtain row' d0 where
    row': "configurations s name = Some row'"
    and d0: "version_data s (name, cfg_version row') = Some d0"
    and c: "c = \<lparr>Name = name, Version = go_int (cfg_version row' + 1), Data = data,
          CreatedAt = cfg_created_at row', UpdatedAt = now, RollbackFrom = 0, RollbackTo = 0\<rparr>"
    and cf: "configurations s' = (configurations s)(name \<mapsto>
           row'\<lparr>cfg_version := Version c, cfg_updated_at := now,
               cfg_rollback_from := Some 0, cfg_rollback_to := Some 0\<rparr>)"
    and vs: "versions s' = versions s @
          [\<lparr>ver_name = name, ver_version = Version c, ver_created_at = now,
            ver_is_rollback = False\<rparr>]"
    and vd: "version_data s' = (version_data s)((name, Version c) \<mapsto> data)"
    by (rule uc_UpdateConfiguration_ok)
  have eq: "row' = row" using row row' by simp
  have v: "Version c = cfg_version row + 1"
    using reachable_head(3) [OF len row [unfolded s]] c eq by simp
  have l1: "uc_ListConfigurationVersions lib (tables s) name =
     (Inr \<lparr>VL_Name = name,
           Versions = map (\<lambda>r. \<lparr>VI_Version = ver_version r, VI_CreatedAt = ver_created_at r,
                                 IsRollback = ver_is_rollback r\<rparr>)
                        (select_versions s name)\<rparr>, tables s)"
    using row' d0 by (rule uc_ListConfigurationVersions_quiet)
  have l2: "uc_ListConfigurationVersions lib (tables s') name =
     (Inr \<lparr>VL_Name = name,
           Versions = map (\<lambda>r. \<lparr>VI_Version = ver_version r, VI_CreatedAt = ver_created_at r,
                                 IsRollback = ver_is_rollback r\<rparr>)
                        (select_versions s' name)\<rparr>, tables s')"
    by (rule uc_ListConfigurationVersions_quiet [where d = data and
          row = "row'\<lparr>cfg_version := Version c, cfg_updated_at := now,
               cfg_rollback_from := Some 0, cfg_rollback_to := Some 0\<rparr>"])
      (simp_all add: cf vd)
  have len': "length (select_versions s' name) = length (select_versions s name) + 1"
    using vs by (rule length_select_versions_append) simp
  have old: "fst (uc_GetConfigurationVersion lib (tables s') name m) =
             fst (uc_GetConfigurationVersion lib (tables s) name m)"
    if "m \<le> cfg_version row" for m
  proof -
    have ne: "m \<noteq> Version c" using that v by simp
    have sv: "select_version s' name m = select_version s name m"
      using vs by (rule select_version_append_other) (use ne in auto)
    have dd: "version_data s' (name, m) = version_data s (name, m)"
      using ne by (simp add: vd)
    show ?thesis
      by (simp add: uc_GetConfigurationVersion_def repo_GetConfigurationVersion_def
          Let_def sv dd cf row' split: option.splits)
  qed
  show ?thesis
    using v c eq l1 l2 len' old by simp
qed

theorem update_appends_one_version_witness:
  "int (length demo_calls) < max_int \<and>
   configurations (run demo_lib (empty_db []) demo_calls) ''a'' =
     Some \<lparr>cfg_version = 3, cfg_created_at = 10, cfg_updated_at = 30,
           cfg_rollback_from = Some 2, cfg_rollback_to = Some 1\<rparr> \<and>
   fst (uc_UpdateConfiguration demo_lib (run demo_lib (empty_db []) demo_calls)
          ''a'' ''{\"k\":3}'' 40) =
     Inr \<lparr>Name = ''a'', Version = 4, Data = ''{\"k\":3}'', CreatedAt = 10, UpdatedAt = 40,
          RollbackFrom = 0, RollbackTo = 0\<rparr> \<and>
   fst (uc_GetConfigurationVersion demo_lib
          (tables (snd (uc_UpdateConfiguration demo_lib
             (run demo_lib (empty_db []) demo_calls) ''a'' ''{\"k\":3}'' 40))) ''a'' 2) =
     Inr \<lparr>Name = ''a'', Version = 2, Data = ''{\"k\":2}'', CreatedAt = 10, UpdatedAt = 20,
          RollbackFrom = 0, RollbackTo = 0\<rparr>"
proof -
  have l: "int (length demo_calls) < max_int"
    by (simp add: demo_calls_def max_int_def)
  have r: "configurations (run demo_lib (empty_db []) demo_calls) ''a'' =
     Some \<lparr>cfg_version = 3, cfg_created_at = 10, cfg_updated_at = 30,
           cfg_rollback_from = Some 2, cfg_rollback_to = Some 1\<rparr>"
    by (simp add: run_demo demo_db_def)
  have fu: "fst (uc_UpdateConfiguration demo_lib (run demo_lib (empty_db []) demo_calls)
          ''a'' ''{\"k\":3}'' 40) =
     Inr \<lparr>Name = ''a'', Version = 4, Data = ''{\"k\":3}'', CreatedAt = 10, UpdatedAt = 40,
          RollbackFrom = 0, RollbackTo = 0\<rparr>"
    unfolding run_demo by (simp add: demo_db_def demo_lib_def repo_defs uc_defs err_defs)
  then have u: "uc_UpdateConfiguration demo_lib (run demo_lib (empty_db []) demo_calls)
          ''a'' ''{\"k\":3}'' 40 =
     (Inr \<lparr>Name = ''a'', Version = 4, Data = ''{\"k\":3}'', CreatedAt = 10, UpdatedAt = 40,
           RollbackFrom = 0, RollbackTo = 0\<rparr>,
      snd (uc_UpdateConfiguration demo_lib (run demo_lib (empty_db []) demo_calls)
          ''a'' ''{\"k\":3}'' 40))"
    by (metis prod.collapse)
  have old: "fst (uc_GetConfigurationVersion demo_lib
          (tables (run demo_lib (empty_db []) demo_calls)) ''a'' 2) =
     Inr \<lparr>Name = ''a'', Version = 2, Data = ''{\"k\":2}'', CreatedAt = 10, UpdatedAt = 20,
          RollbackFrom = 0, RollbackTo = 0\<rparr>"
    unfolding run_demo by (simp add: demo_db_def demo_lib_def repo_defs uc_defs err_defs)
  show ?thesis
    using update_appends_one_version [OF l refl r u] l r fu old by simp
qed

lemma reachable_payload_has_record:
  assumes len: "int (length calls) < max_int"
    and d: "version_data (run lib (empty_db fs) calls) (name, v) = Some d"
  shows "select_version (run lib (empty_db fs) calls) name v \<noteq> None"
proof -
  have "store_inv (length calls) (run lib (empty_db fs) calls)"
    using len by (intro reachable_inv) simp
  then have "v \<in> set (versions_of (run lib (empty_db fs) calls) name)"
    using d unfolding store_inv_def by blast
  then show ?thesis by (rule select_version_iff [THEN iffD2])
qed

text \<open>
  Claim C3. In a store reached by a history of fewer than \<open>2^63 - 1\<close> calls, a successful
  \<open>Rollback(name, targetVersion)\<close> on a configuration of head \<open>N\<close>: the target has a
  payload and a version record; the result has version \<open>N + 1\<close>, the payload stored at
  \<open>targetVersion\<close> as data (the data that \<open>GetVersion(name, targetVersion)\<close> returns),
  \<open>rollbackFrom = N\<close> and \<open>rollbackTo = targetVersion\<close>; and the version record written
  for \<open>N + 1\<close> is marked as a rollback. Nothing restricts \<open>targetVersion\<close>, so the head
  itself is included.
\<close>

theorem rollback_copies_target_forward:
  assumes len: "int (length calls) < max_int"
    and s: "s = run lib (empty_db fs) calls"
    and row: "configurations s name = Some row"
    and ok: "uc_RollbackConfiguration lib s name tv now = (Inr c, s')"
  shows "\<exists>td. version_data s (name, tv) = Some td \<and> select_version s name tv \<noteq> None \<and>
           Version c = cfg_version row + 1 \<and> Data c = td \<and>
           RollbackFrom c = cfg_version row \<and> RollbackTo c = tv \<and>
           select_version s' name (cfg_version row + 1) =
             Some \<lparr>ver_name = name, ver_version = cfg_version row + 1,
                   ver_created_at = now, ver_is_rollback = True\<rparr> \<and>
           (\<forall>cv t. uc_GetConfigurationVersion lib (tables s) name tv = (Inr cv, t) \<longrightarrow>
              Data cv = Data c)"
proof -
  from ok obtain row' d0 td where
    row': "configurations s name = Some row'"
    and "version_data s (name, cfg_version row') = Some d0"
    and td: "version_data s (name, tv) = Some td"
    and c: "c = \<lparr>Name = name, Version = go_int (cfg_version row' + 1), Data = td,
          CreatedAt = cfg_created_at row', UpdatedAt = now,
          RollbackFrom = cfg_version row', RollbackTo = tv\<rparr>"
    and fresh: "select_version s name (Version c) = None"
    and vs: "versions s' = versions s @
          [\<lparr>ver_name = name, ver_version = Version c, ver_created_at = now,
            ver_is_rollback = (cfg_version row' > 0)\<rparr>]"
    by (rule uc_RollbackConfiguration_ok)
  have eq: "row' = row" using row row' by simp
  note h = reachable_head [OF len row [unfolded s]]
  have v: "Version c = cfg_version row + 1"
    using h(3) c eq by simp
  have rec: "select_version s name tv \<noteq> None"
    using reachable_payload_has_record [OF len td [unfolded s]] s by simp
  let ?r = "\<lparr>ver_name = name, ver_version = Version c, ver_created_at = now,
            ver_is_rollback = (cfg_version row' > 0)\<rparr>"
  have "select_version s' (ver_name ?r) (ver_version ?r) = Some ?r"
    using vs by (rule select_version_append_new) (simp add: fresh)
  then have new: "select_version s' name (cfg_version row + 1) =
             Some \<lparr>ver_name = name, ver_version = cfg_version row + 1,
                   ver_created_at = now, ver_is_rollback = True\<rparr>"
    using v eq h(1) by simp
  have gv: "Data cv = Data c"
    if "uc_GetConfigurationVersion lib (tables s) name tv = (Inr cv, t)" for cv t
    using that td c
    by (auto simp: uc_GetConfigurationVersion_def repo_GetConfigurationVersion_def Let_def
        split: if_splits option.splits)
  show ?thesis
    using td rec v c eq new gv by auto
qed

theorem rollback_copies_target_forward_witness:
  "int (length [Create ''a'' ''{\"k\":1}'' 10, Update ''a'' ''{\"k\":2}'' 20]) < max_int \<and>
   configurations (run demo_lib (empty_db [])
       [Create ''a'' ''{\"k\":1}'' 10, Update ''a'' ''{\"k\":2}'' 20]) ''a'' =
     Some \<lparr>cfg_version = 2, cfg_created_at = 10, cfg_updated_at = 20,
           cfg_rollback_from = Some 0, cfg_rollback_to = Some 0\<rparr> \<and>
   fst (uc_RollbackConfiguration demo_lib (run demo_lib (empty_db [])
       [Create ''a'' ''{\"k\":1}'' 10, Update ''a'' ''{\"k\":2}'' 20]) ''a'' 1 30) =
     Inr \<lparr>Name = ''a'', Version = 3, Data = ''{\"k\":1}'', CreatedAt = 10, UpdatedAt = 30,
          RollbackFrom = 2, RollbackTo = 1\<rparr> \<and>
   select_version (snd (uc_RollbackConfiguration demo_lib (run demo_lib (empty_db [])
       [Create ''a'' ''{\"k\":1}'' 10, Update ''a'' ''{\"k\":2}'' 20]) ''a'' 1 30)) ''a'' 3 =
     Some \<lparr>ver_name = ''a'', ver_version = 3, ver_created_at = 30, ver_is_rollback = True\<rparr>"
proof -
  let ?cs = "[Create ''a'' ''{\"k\":1}'' 10, Update ''a'' ''{\"k\":2}'' 20]"
  have l: "int (length ?cs) < max_int"
    by (simp add: max_int_def)
  have r: "configurations (run demo_lib (empty_db []) ?cs) ''a'' =
     Some \<lparr>cfg_version = 2, cfg_created_at = 10, cfg_updated_at = 20,
           cfg_rollback_from = Some 0, cfg_rollback_to = Some 0\<rparr>"
    by (simp add: demo_lib_def repo_defs uc_defs err_defs)
  have fu: "fst (uc_RollbackConfiguration demo_lib (run demo_lib (empty_db []) ?cs) ''a'' 1 30) =
     Inr \<lparr>Name = ''a'', Version = 3, Data = ''{\"k\":1}'', CreatedAt = 10, UpdatedAt = 30,
          RollbackFrom = 2, RollbackTo = 1\<rparr>"
    by (simp add: demo_lib_def repo_defs uc_defs err_defs)
  then have u: "uc_RollbackConfiguration demo_lib (run demo_lib (empty_db []) ?cs) ''a'' 1 30 =
     (Inr \<lparr>Name = ''a'', Version = 3, Data = ''{\"k\":1}'', CreatedAt = 10, UpdatedAt = 30,
           RollbackFrom = 2, RollbackTo = 1\<rparr>,
      snd (uc_RollbackConfiguration demo_lib (run demo_lib (empty_db []) ?cs) ''a'' 1 30))"
    by (metis prod.collapse)
  show ?thesis
    using rollback_copies_target_forward [OF l refl r u] l r fu by simp
qed

text \<open>
  Claim C7. In a store reached by a history of fewer than \<open>2^63 - 1\<close> calls, when no
  configuration exists for the name, or no version record exists for the target version,
  or the target version is greater than the head, \<open>Rollback(name, targetVersion)\<close> fails
  with \<open>NOT_FOUND\<close> and leaves every table as it was, so that \<open>Get(name)\<close> afterwards
  returns what it returned before. This holds under every schedule of failures.
\<close>

theorem rollback_to_missing_version_not_found:
  assumes len: "int (length calls) < max_int"
    and s: "s = run lib (empty_db fs) calls"
    and missing: "configurations s name = None \<or> select_version s name tv = None \<or>
                  (\<exists>row. configurations s name = Some row \<and> cfg_version row < tv)"
  shows "\<exists>e s'. uc_RollbackConfiguration lib s name tv now = (Inl e, s') \<and>
           code_of e = Some NOT_FOUND \<and> tables s' = tables s \<and>
           uc_GetConfiguration lib (tables s') name = uc_GetConfiguration lib (tables s) name"
proof -
  obtain r1 s1 where g: "repo_GetConfiguration s name = (r1, s1)" by fastforce
  obtain r2 s2 where gd: "repo_GetVersionData s1 name tv = (r2, s2)" by fastforce
  have t1: "tables s1 = tables s" by (rule repo_GetConfiguration_tables [OF g])
  have t2: "tables s2 = tables s" using repo_GetVersionData_tables [OF gd] t1 by simp
  have nf: "code_of (NewNotFoundError a b) = Some NOT_FOUND" for a b
    by (simp add: NewNotFoundError_def NewAppError_def)
  show ?thesis
  proof (cases r1)
    case (Inl e)
    then show ?thesis
      using t1 by (simp add: uc_RollbackConfiguration_def g nf)
  next
    case (Inr c0)
    from repo_GetConfiguration_ok [OF g [unfolded Inr]]
    obtain row where row: "configurations s name = Some row" by blast
    have norec: "select_version s name tv = None"
    proof -
      have "tv \<notin> set (versions_of s name)" if "cfg_version row < tv"
        using reachable_head(4) [OF len row [unfolded s]] that s by simp
      then show ?thesis
        using missing row by (auto simp: select_version_iff [symmetric])
    qed
    have "version_data s (name, tv) = None"
    proof (rule ccontr)
      assume "version_data s (name, tv) \<noteq> None"
      then obtain d where "version_data s (name, tv) = Some d" by auto
      from reachable_payload_has_record [OF len this [unfolded s]] norec s
      show False by simp
    qed
    then have "\<exists>e. r2 = Inl e"
      using gd t1 [unfolded tables_eq_iff]
      by (auto simp: repo_GetVersionData_def Let_def split: if_splits)
    then show ?thesis
      using t2 by (auto simp: uc_RollbackConfiguration_def g Inr gd nf)
  qed
qed

theorem rollback_to_missing_version_not_found_witness:
  "int (length [Create ''a'' ''{\"k\":1}'' 10, Update ''a'' ''{\"k\":2}'' 20]) < max_int \<and>
   select_version (run demo_lib (empty_db [])
       [Create ''a'' ''{\"k\":1}'' 10, Update ''a'' ''{\"k\":2}'' 20]) ''a'' 3 = None \<and>
   fst (uc_RollbackConfiguration demo_lib (run demo_lib (empty_db [])
       [Create ''a'' ''{\"k\":1}'' 10, Update ''a'' ''{\"k\":2}'' 20]) ''a'' 3 30) =
     Inl (NewNotFoundError ''Configuration version'' ''a'') \<and>
   (\<exists>e s'. uc_RollbackConfiguration demo_lib (run demo_lib (empty_db [])
       [Create ''a'' ''{\"k\":1}'' 10, Update ''a'' ''{\"k\":2}'' 20]) ''a'' 3 30 = (Inl e, s') \<and>
     code_of e = Some NOT_FOUND \<and>
     tables s' = tables (run demo_lib (empty_db [])
       [Create ''a'' ''{\"k\":1}'' 10, Update ''a'' ''{\"k\":2}'' 20]))"
proof -
  let ?cs = "[Create ''a'' ''{\"k\":1}'' 10, Update ''a'' ''{\"k\":2}'' 20]"
  have l: "int (length ?cs) < max_int"
    by (simp add: max_int_def)
  have m: "select_version (run demo_lib (empty_db []) ?cs) ''a'' 3 = None"
    by (simp add: demo_lib_def repo_defs uc_defs err_defs)
  have f: "fst (uc_RollbackConfiguration demo_lib (run demo_lib (empty_db []) ?cs) ''a'' 3 30) =
     Inl (NewNotFoundError ''Configuration version'' ''a'')"
    by (simp add: demo_lib_def repo_defs uc_defs err_defs)
  show ?thesis
    using rollback_to_missing_version_not_found [OF l refl disjI2 [OF disjI1 [OF m]], of 30]
      l m f by blast
qed

lemma fault_now_quiet: "faults s = [] \<Longrightarrow> \<not> fault_now s"
  by (simp add: fault_now_def)

lemma advance_quiet: "faults s = [] \<Longrightarrow> advance s = s"
  by (simp add: advance_def)

lemma repo_GetVersionData_quiet:
  "faults s = [] \<Longrightarrow> version_data s (n, v) = Some d \<Longrightarrow>
   repo_GetVersionData s n v = (Inr d, s)"
  by (simp add: repo_GetVersionData_def fault_now_quiet advance_quiet)

lemma repo_UpdateConfiguration_quiet:
  assumes "faults s = []" and "select_version s (Name n) (Version n) = None"
  shows "\<exists>s'. repo_UpdateConfiguration s n = (None, s') \<and> faults s' = []"
  using assms by (simp add: repo_UpdateConfiguration_def fault_now_quiet advance_quiet)

lemma repo_StoreVersionData_quiet:
  "faults s = [] \<Longrightarrow> \<exists>s'. repo_StoreVersionData s n v d = (None, s') \<and> faults s' = []"
  by (simp add: repo_StoreVersionData_def fault_now_quiet advance_quiet)

text \<open>
  Claim C8 as stated: the rollback succeeds provided the configuration and the target
  version record exist. It fails in the store that a failed \<open>Update\<close> leaves when the
  payload of its new version could not be stored: the row of \<open>a\<close> is at head \<open>2\<close>,
  the version record of the target \<open>1\<close> exists, and so does its payload; no failure
  occurs during the call; yet \<open>Rollback(a, 1)\<close> returns \<open>NOT_FOUND\<close> and writes
  nothing, because the payload of the head cannot be read. It also fails where the
  database fails during the call: the row, the version record and the payload of version
  \<open>1\<close> of \<open>a\<close> exist and the transaction of the rollback cannot begin.
\<close>

theorem rollback_with_target_present_counterexample:
  "configurations stuck_head_db ''a'' =
     Some \<lparr>cfg_version = 2, cfg_created_at = 10, cfg_updated_at = 20,
           cfg_rollback_from = Some 0, cfg_rollback_to = Some 0\<rparr> \<and>
   select_version stuck_head_db ''a'' 1 =
     Some \<lparr>ver_name = ''a'', ver_version = 1, ver_created_at = 10, ver_is_rollback = False\<rparr> \<and>
   version_data stuck_head_db (''a'', 1) = Some ''{\"k\":1}'' \<and>
   version_data stuck_head_db (''a'', 2) = None \<and>
   fst (uc_RollbackConfiguration demo_lib (tables stuck_head_db) ''a'' 1 30) =
     Inl (NewNotFoundError ''Configuration'' ''a'') \<and>
   tables (snd (uc_RollbackConfiguration demo_lib (tables stuck_head_db) ''a'' 1 30)) =
     tables stuck_head_db \<and>
   configurations lost_write_db ''a'' =
     Some \<lparr>cfg_version = 1, cfg_created_at = 10, cfg_updated_at = 10,
           cfg_rollback_from = None, cfg_rollback_to = None\<rparr> \<and>
   select_version lost_write_db ''a'' 1 =
     Some \<lparr>ver_name = ''a'', ver_version = 1, ver_created_at = 10, ver_is_rollback = False\<rparr> \<and>
   version_data lost_write_db (''a'', 1) = Some ''{\"k\":1}'' \<and>
   fst (uc_RollbackConfiguration demo_lib lost_write_db ''a'' 1 30) =
     Inl (NewInternalError ''Failed to rollback configuration''
            (TextDetails ''driver: bad connection''))"
  by (simp add: stuck_head_db_def lost_write_db_def demo_lib_def repo_defs uc_defs err_defs)

text \<open>
  Claim C8, amended. In a store reached by a history of fewer than \<open>2^63 - 1\<close> calls
  (any calls, any failures), when the row of the configuration exists with head \<open>N\<close>,
  the payload of the head is stored and the version record of \<open>targetVersion\<close> exists,
  then \<open>Rollback(name, targetVersion)\<close> succeeds when the database injects no failure
  during the call, whatever schema is registered for the name and whatever the
  validator of the call says: the payload of the target is stored, the call returns
  version \<open>N + 1\<close> carrying it, with \<open>rollbackFrom = N\<close> and
  \<open>rollbackTo = targetVersion\<close>, and it leaves the row at head \<open>N + 1\<close>, one more
  version record, marked as a rollback, the payload stored at \<open>N + 1\<close>, and the schemas
  as they were.
\<close>

theorem rollback_skips_schema_validation:
  assumes len: "int (length calls) < max_int"
    and s: "s = run lib (empty_db fs) calls"
    and row: "configurations s name = Some row"
    and hd: "version_data s (name, cfg_version row) = Some d0"
    and rec: "select_version s name tv \<noteq> None"
  shows "\<exists>td s'. version_data s (name, tv) = Some td \<and>
           uc_RollbackConfiguration lib' (tables s) name tv now =
             (Inr \<lparr>Name = name, Version = cfg_version row + 1, Data = td,
                   CreatedAt = cfg_created_at row, UpdatedAt = now,
                   RollbackFrom = cfg_version row, RollbackTo = tv\<rparr>, s') \<and>
           configurations s' = (configurations s)(name \<mapsto>
             row\<lparr>cfg_version := cfg_version row + 1, cfg_updated_at := now,
                 cfg_rollback_from := Some (cfg_version row), cfg_rollback_to := Some tv\<rparr>) \<and>
           versions s' = versions s @
             [\<lparr>ver_name = name, ver_version = cfg_version row + 1,
               ver_created_at = now, ver_is_rollback = True\<rparr>] \<and>
           version_data s' = (version_data s)((name, cfg_version row + 1) \<mapsto> td) \<and>
           schemas s' = schemas s"
proof -
  have inv: "store_inv (length calls) s"
    using len unfolding s by (intro reachable_inv) simp
  note h = reachable_head [OF len row [unfolded s]]
  have mem: "tv \<in> set (versions_of s name)"
    using rec by (rule select_version_iff [THEN iffD1])
  have "version_data s (name, tv) \<noteq> None"
  proof (cases "tv = cfg_version row")
    case True
    then show ?thesis using hd by simp
  next
    case False
    then show ?thesis using inv row mem unfolding store_inv_def by blast
  qed
  then obtain td where td: "version_data s (name, tv) = Some td" by blast
  have "cfg_version row + 1 \<notin> set (versions_of s name)"
    using h(4) s by simp
  then have fresh: "select_version s name (cfg_version row + 1) = None"
    using select_version_iff by blast
  let ?c0 = "\<lparr>Name = name, Version = cfg_version row, Data = d0,
           CreatedAt = cfg_created_at row, UpdatedAt = cfg_updated_at row,
           RollbackFrom = (case cfg_rollback_from row of None \<Rightarrow> 0 | Some v \<Rightarrow> v),
           RollbackTo = (case cfg_rollback_to row of None \<Rightarrow> 0 | Some v \<Rightarrow> v)\<rparr>"
  let ?n = "NewVersionFromRollback ?c0 tv td now"
  have g1: "repo_GetConfiguration (tables s) name = (Inr ?c0, tables s)"
    by (rule repo_GetConfiguration_quiet [OF row hd])
  have g2: "repo_GetVersionData (tables s) name tv = (Inr td, tables s)"
    by (rule repo_GetVersionData_quiet) (simp_all add: td)
  have "select_version (tables s) (Name ?n) (Version ?n) = None"
    using fresh h(3) by simp
  with repo_UpdateConfiguration_quiet [of "tables s" ?n]
  obtain s3 where g3: "repo_UpdateConfiguration (tables s) ?n = (None, s3)"
    and q3: "faults s3 = []" by auto
  from repo_StoreVersionData_quiet [OF q3, of name "go_int (cfg_version row + 1)" td]
  obtain s4 where g4: "repo_StoreVersionData s3 name (go_int (cfg_version row + 1)) td =
      (None, s4)" by auto
  have u: "uc_RollbackConfiguration lib' (tables s) name tv now = (Inr ?n, s4)"
    by (simp add: uc_RollbackConfiguration_def g1 g2 g3 g4 Let_def)
  have n: "?n = \<lparr>Name = name, Version = cfg_version row + 1, Data = td,
                   CreatedAt = cfg_created_at row, UpdatedAt = now,
                   RollbackFrom = cfg_version row, RollbackTo = tv\<rparr>"
    using h(3) by (simp add: NewVersionFromRollback_def)
  from u obtain row' where
    row': "configurations (tables s) name = Some row'"
    and cf: "configurations s4 = (configurations (tables s))(name \<mapsto>
           row'\<lparr>cfg_version := Version ?n, cfg_updated_at := now,
               cfg_rollback_from := Some (cfg_version row'), cfg_rollback_to := Some tv\<rparr>)"
    and vs: "versions s4 = versions (tables s) @
          [\<lparr>ver_name = name, ver_version = Version ?n, ver_created_at = now,
            ver_is_rollback = (cfg_version row' > 0)\<rparr>]"
    and vd: "version_data s4 = (version_data (tables s))((name, Version ?n) \<mapsto> td)"
    and sc: "schemas s4 = schemas (tables s)"
    by (rule uc_RollbackConfiguration_ok) (simp add: td)
  have eq: "row' = row" using row row' by simp
  have "version_data s (name, tv) = Some td \<and>
        uc_RollbackConfiguration lib' (tables s) name tv now =
             (Inr \<lparr>Name = name, Version = cfg_version row + 1, Data = td,
                   CreatedAt = cfg_created_at row, UpdatedAt = now,
                   RollbackFrom = cfg_version row, RollbackTo = tv\<rparr>, s4) \<and>
        configurations s4 = (configurations s)(name \<mapsto>
             row\<lparr>cfg_version := cfg_version row + 1, cfg_updated_at := now,
                 cfg_rollback_from := Some (cfg_version row), cfg_rollback_to := Some tv\<rparr>) \<and>
        versions s4 = versions s @
             [\<lparr>ver_name = name, ver_version = cfg_version row + 1,
               ver_created_at = now, ver_is_rollback = True\<rparr>] \<and>
        version_data s4 = (version_data s)((name, cfg_version row + 1) \<mapsto> td) \<and>
        schemas s4 = schemas s"
    using td u cf vs vd sc h(1) unfolding n eq by simp
  then show ?thesis by blast
qed

theorem rollback_skips_schema_validation_witness:
  "int (length strict_calls) < max_int \<and>
   schemas (run demo_lib (empty_db []) strict_calls) ''a'' = Some ''{\"required\":[\"k\"]}'' \<and>
   ValidateJSON demo_lib ''{\"required\":[\"k\"]}'' ''{}'' =
     Some (NewValidationFailedError ''JSON validation failed''
       (ValidationDetails [\<lparr>Field = ''(root)'', Reason = ''k is required''\<rparr>])) \<and>
   configurations (run demo_lib (empty_db []) strict_calls) ''a'' =
     Some \<lparr>cfg_version = 2, cfg_created_at = 10, cfg_updated_at = 20,
           cfg_rollback_from = Some 0, cfg_rollback_to = Some 0\<rparr> \<and>
   version_data (run demo_lib (empty_db []) strict_calls) (''a'', 2) = Some ''{\"k\":2}'' \<and>
   select_version (run demo_lib (empty_db []) strict_calls) ''a'' 1 \<noteq> None \<and>
   (\<exists>s'. uc_RollbackConfiguration demo_lib (tables (run demo_lib (empty_db []) strict_calls))
        ''a'' 1 30 =
        (Inr \<lparr>Name = ''a'', Version = 3, Data = ''{}'', CreatedAt = 10, UpdatedAt = 30,
              RollbackFrom = 2, RollbackTo = 1\<rparr>, s') \<and>
      select_version s' ''a'' 3 =
        Some \<lparr>ver_name = ''a'', ver_version = 3, ver_created_at = 30, ver_is_rollback = True\<rparr> \<and>
      version_data s' (''a'', 3) = Some ''{}'')"
proof -
  let ?s = "run demo_lib (empty_db []) strict_calls"
  have l: "int (length strict_calls) < max_int"
    by (simp add: strict_calls_def max_int_def)
  have sch: "schemas ?s ''a'' = Some ''{\"required\":[\"k\"]}''"
    by (simp add: strict_calls_def demo_lib_def repo_defs uc_defs err_defs)
  have val: "ValidateJSON demo_lib ''{\"required\":[\"k\"]}'' ''{}'' =
     Some (NewValidationFailedError ''JSON validation failed''
       (ValidationDetails [\<lparr>Field = ''(root)'', Reason = ''k is required''\<rparr>]))"
    by (simp add: demo_lib_def ValidateJSON_def)
  have r: "configurations ?s ''a'' =
     Some \<lparr>cfg_version = 2, cfg_created_at = 10, cfg_updated_at = 20,
           cfg_rollback_from = Some 0, cfg_rollback_to = Some 0\<rparr>"
    by (simp add: strict_calls_def demo_lib_def repo_defs uc_defs err_defs)
  have d2: "version_data ?s (''a'', 2) = Some ''{\"k\":2}''"
    by (simp add: strict_calls_def demo_lib_def repo_defs uc_defs err_defs)
  have d2': "version_data ?s
      (''a'', cfg_version \<lparr>cfg_version = 2, cfg_created_at = 10, cfg_updated_at = 20,
           cfg_rollback_from = Some 0, cfg_rollback_to = Some 0\<rparr>) = Some ''{\"k\":2}''"
    using d2 by simp
  have d1: "version_data ?s (''a'', 1) = Some ''{}''"
    by (simp add: strict_calls_def demo_lib_def repo_defs uc_defs err_defs)
  have vs: "versions ?s =
      [\<lparr>ver_name = ''a'', ver_version = 1, ver_created_at = 10, ver_is_rollback = False\<rparr>,
       \<lparr>ver_name = ''a'', ver_version = 2, ver_created_at = 20, ver_is_rollback = False\<rparr>]"
    by (simp add: strict_calls_def demo_lib_def repo_defs uc_defs err_defs)
  have rec: "select_version ?s ''a'' 1 \<noteq> None"
    by (simp add: select_version_def vs)
  from rollback_skips_schema_validation [OF l refl r d2' rec, of demo_lib 30]
  obtain td s' where td: "version_data ?s (''a'', 1) = Some td"
    and u: "uc_RollbackConfiguration demo_lib (tables ?s) ''a'' 1 30 =
             (Inr \<lparr>Name = ''a'', Version = 2 + 1, Data = td, CreatedAt = 10, UpdatedAt = 30,
                   RollbackFrom = 2, RollbackTo = 1\<rparr>, s')"
    and v': "versions s' = versions ?s @
             [\<lparr>ver_name = ''a'', ver_version = 2 + 1,
               ver_created_at = 30, ver_is_rollback = True\<rparr>]"
    and d': "version_data s' = (version_data ?s)((''a'', 2 + 1) \<mapsto> td)"
    by auto
  have e: "td = ''{}''" using td d1 by simp
  have "uc_RollbackConfiguration demo_lib (tables ?s) ''a'' 1 30 =
        (Inr \<lparr>Name = ''a'', Version = 3, Data = ''{}'', CreatedAt = 10, UpdatedAt = 30,
              RollbackFrom = 2, RollbackTo = 1\<rparr>, s') \<and>
      select_version s' ''a'' 3 =
        Some \<lparr>ver_name = ''a'', ver_version = 3, ver_created_at = 30, ver_is_rollback = True\<rparr> \<and>
      version_data s' (''a'', 3) = Some ''{}''"
    using u d' e by (simp add: select_version_def v' vs)
  then show ?thesis
    using l sch val r d2 rec by blast
qed

text \<open>
  Claim C1 as stated: the Configuration row and the version-1 payload written by
  \<open>Create\<close> are visible together or not at all. It fails when the seventh round trip of
  the call, the \<^verbatim>\<open>INSERT OR REPLACE\<close> of \<^verbatim>\<open>StoreVersionData\<close>, fails: the
  transaction of \<^verbatim>\<open>CreateConfiguration\<close> has committed by then, so the row is there
  and the payload is not.
\<close>

theorem create_payload_not_atomic_counterexample:
  "fst (uc_CreateConfiguration demo_lib
          (empty_db [False, False, False, False, False, False, True]) ''a'' ''{}'' 10) =
     Inl (NewInternalError ''Failed to store version data''
            (TextDetails ''driver: bad connection'')) \<and>
   configurations (snd (uc_CreateConfiguration demo_lib
          (empty_db [False, False, False, False, False, False, True]) ''a'' ''{}'' 10)) ''a'' =
     Some \<lparr>cfg_version = 1, cfg_created_at = 10, cfg_updated_at = 10,
           cfg_rollback_from = None, cfg_rollback_to = None\<rparr> \<and>
   version_data (snd (uc_CreateConfiguration demo_lib
          (empty_db [False, False, False, False, False, False, True]) ''a'' ''{}'' 10))
     (''a'', 1) = None"
  by (simp add: demo_lib_def repo_defs uc_defs err_defs)

text \<open>
  Claim C1, amended. For every \<open>Create(name, data)\<close> call the Configuration row and the
  version-1 record are written as a unit: afterwards either no table has changed and the
  call has failed, or both have been added. The payload is written by a separate
  statement after that transaction: it is stored when \<open>Create\<close> succeeds, never stored
  without the row and the record, and when that statement fails \<open>Create\<close> returns an
  internal error.
\<close>

theorem create_row_and_record_atomic:
  assumes "uc_CreateConfiguration lib s name data now = (r, s')"
  shows "schemas s' = schemas s \<and>
         ((configurations s' = configurations s \<and> versions s' = versions s \<and>
           version_data s' = version_data s \<and> (\<exists>e. r = Inl e)) \<or>
          (configurations s name = None \<and> select_version s name 1 = None \<and>
           configurations s' = (configurations s)(name \<mapsto>
             \<lparr>cfg_version = 1, cfg_created_at = now, cfg_updated_at = now,
              cfg_rollback_from = None, cfg_rollback_to = None\<rparr>) \<and>
           versions s' = versions s @
             [\<lparr>ver_name = name, ver_version = 1, ver_created_at = now,
               ver_is_rollback = False\<rparr>] \<and>
           ((version_data s' = (version_data s)((name, 1) \<mapsto> data) \<and>
             r = Inr (NewConfiguration name data now)) \<or>
            (version_data s' = version_data s \<and>
             r = Inl (NewInternalError ''Failed to store version data''
                        (TextDetails (Error DriverError)))))))"
proof -
  obtain r1 s1 where g: "repo_GetConfiguration s name = (r1, s1)" by fastforce
  obtain r2 s2 where sc: "repo_GetSchema s1 name = (r2, s2)" by fastforce
  obtain r3 s3 where cr: "repo_CreateConfiguration s2 (NewConfiguration name data now) = (r3, s3)"
    by fastforce
  obtain r4 s4 where st: "repo_StoreVersionData s3 name 1 data = (r4, s4)" by fastforce
  have t1: "tables s1 = tables s" by (rule repo_GetConfiguration_tables [OF g])
  have t2: "tables s2 = tables s"
    using t1 repo_GetSchema_tables [OF sc] by simp
  note e1 = t1 [unfolded tables_eq_iff]
  note e2 = t2 [unfolded tables_eq_iff]
  show ?thesis
  proof (cases r1)
    case (Inr c0)
    then show ?thesis
      using assms e1 by (auto simp: uc_CreateConfiguration_def g)
  next
    case l1: (Inl e0)
    show ?thesis
    proof (cases "case r2 of Inr schema \<Rightarrow> ValidateJSON lib schema data | Inl _ \<Rightarrow> None")
      case (Some err)
      then show ?thesis
        using assms e2 by (auto simp: uc_CreateConfiguration_def g l1 sc)
    next
      case v: None
      show ?thesis
      proof (cases r3)
        case (Some e3)
        have "tables s3 = tables s"
          using repo_CreateConfiguration_failed [OF cr [unfolded Some]] t2 by simp
        then show ?thesis
          using assms Some v
          by (auto simp: uc_CreateConfiguration_def g l1 sc cr Let_def tables_eq_iff)
      next
        case n3: None
        note d = repo_CreateConfiguration_done [OF cr [unfolded n3]]
        have sv: "select_version s name 1 = None"
          using d(2) e2 by (simp add: select_version_def)
        show ?thesis
        proof (cases r4)
          case (Some e4)
          have e4: "e4 = DriverError"
            using st Some by (auto simp: repo_StoreVersionData_def Let_def split: if_splits)
          have "tables s4 = tables s3"
            using repo_StoreVersionData_failed [OF st [unfolded Some]] .
          then show ?thesis
            using assms Some v n3 d e2 sv e4
            by (auto simp: uc_CreateConfiguration_def g l1 sc cr st Let_def tables_eq_iff)
        next
          case n4: None
          note e = repo_StoreVersionData_done [OF st [unfolded n4]]
          show ?thesis
            using assms v n3 n4 d e e2 sv
            by (auto simp: uc_CreateConfiguration_def g l1 sc cr st Let_def)
        qed
      qed
    qed
  qed
qed

theorem create_row_and_record_atomic_witness:
  "uc_CreateConfiguration demo_lib (empty_db [False, False, False, False, True]) ''a'' ''{}'' 10 =
     (Inl (NewInternalError ''Failed to create configuration''
             (TextDetails ''driver: bad connection'')), empty_db []) \<and>
   configurations (empty_db []) = configurations (empty_db [False, False, False, False, True]) \<and>
   versions (empty_db []) = versions (empty_db [False, False, False, False, True])"
proof -
  have u: "uc_CreateConfiguration demo_lib (empty_db [False, False, False, False, True]) ''a'' ''{}'' 10 =
     (Inl (NewInternalError ''Failed to create configuration''
             (TextDetails ''driver: bad connection'')), empty_db [])"
    by (simp add: demo_lib_def repo_defs uc_defs err_defs)
  show ?thesis
    using create_row_and_record_atomic [OF u] u by (simp add: empty_db_def)
qed

text \<open>
  Claim C4 as stated: whenever a schema is registered for the name and the data fails it,
  \<open>Create\<close> and \<open>Update\<close> return \<open>VALIDATION_FAILED\<close> and nothing is written. The
  error kind fails where the existence check of the operation comes first: \<open>Create\<close>
  on an existing name returns \<open>ALREADY_EXISTS\<close> and \<open>Update\<close> on a missing name
  returns \<open>NOT_FOUND\<close>, whatever the data. The absence of a write fails where the query
  for the registered schema fails in the driver: \<open>Create\<close> then stores the data
  unvalidated.
\<close>

theorem validation_failure_counterexample:
  "schemas (run demo_lib (empty_db []) gated_calls) ''x'' = Some ''{\"required\":[\"k\"]}'' \<and>
   Validate demo_lib ''{\"required\":[\"k\"]}'' ''{}'' = Inr [(''(root)'', ''k is required'')] \<and>
   fst (uc_CreateConfiguration demo_lib (run demo_lib (empty_db []) gated_calls) ''x'' ''{}'' 20) =
     Inl (NewAlreadyExistsError ''Configuration'' ''x'') \<and>
   fst (uc_UpdateConfiguration demo_lib
          (run demo_lib (empty_db []) [RegisterSchema ''x'' ''{\"required\":[\"k\"]}''])
          ''x'' ''{}'' 20) =
     Inl (NewNotFoundError ''Configuration'' ''x'') \<and>
   schemas lost_schema_query_db ''b'' = Some ''{\"required\":[\"k\"]}'' \<and>
   fst (uc_CreateConfiguration demo_lib lost_schema_query_db ''b'' ''{}'' 10) =
     Inr (NewConfiguration ''b'' ''{}'' 10) \<and>
   version_data (snd (uc_CreateConfiguration demo_lib lost_schema_query_db ''b'' ''{}'' 10))
     (''b'', 1) = Some ''{}''"
  by (simp add: gated_calls_def lost_schema_query_db_def demo_lib_def
      repo_defs uc_defs err_defs)

text \<open>
  Claim C4, amended. Let the data fail validation against a schema. \<open>Create\<close> on a
  name whose configuration is found returns \<open>ALREADY_EXISTS\<close>, and \<open>Update\<close> on a name
  whose configuration lookup returns an error returns \<open>NOT_FOUND\<close>, both before the
  schema is looked up and with every table as it was before the call. In the other
  case of each operation (\<open>Create\<close>: the lookup of the configuration returns an error;
  \<open>Update\<close>: it returns the configuration), when the lookup of the schema returns that
  schema, the call returns \<open>VALIDATION_FAILED\<close> with one field and reason per
  violation, and every table is as it was before the call. So no write occurs in any
  of these calls; only a call whose schema lookup itself fails is not covered.
\<close>

theorem validation_failure_blocks_write:
  assumes bad: "Validate lib schema data = Inr errs" "errs \<noteq> []"
  shows "(\<forall>c0. repo_GetConfiguration s name = (Inr c0, s1) \<longrightarrow>
            uc_CreateConfiguration lib s name data now =
              (Inl (NewAlreadyExistsError ''Configuration'' name), s1) \<and>
            tables s1 = tables s \<and>
            (\<forall>s2. repo_GetSchema s1 name = (Inr schema, s2) \<longrightarrow>
               uc_UpdateConfiguration lib s name data now =
                 (Inl (NewValidationFailedError ''JSON validation failed''
                   (ValidationDetails (map (\<lambda>(f, d). \<lparr>Field = f, Reason = d\<rparr>) errs))), s2) \<and>
               tables s2 = tables s)) \<and>
         (\<forall>e0. repo_GetConfiguration s name = (Inl e0, s1) \<longrightarrow>
            uc_UpdateConfiguration lib s name data now =
              (Inl (NewNotFoundError ''Configuration'' name), s1) \<and>
            tables s1 = tables s \<and>
            (\<forall>s2. repo_GetSchema s1 name = (Inr schema, s2) \<longrightarrow>
               uc_CreateConfiguration lib s name data now =
                 (Inl (NewValidationFailedError ''JSON validation failed''
                   (ValidationDetails (map (\<lambda>(f, d). \<lparr>Field = f, Reason = d\<rparr>) errs))), s2) \<and>
               tables s2 = tables s))"
proof -
  have v: "ValidateJSON lib schema data =
      Some (NewValidationFailedError ''JSON validation failed''
         (ValidationDetails (map (\<lambda>(f, d). \<lparr>Field = f, Reason = d\<rparr>) errs)))"
    using bad by (simp add: ValidateJSON_def)
  have t1: "tables s1 = tables s" if "repo_GetConfiguration s name = (r, s1)" for r
    using repo_GetConfiguration_tables [OF that] .
  have t2: "tables s2 = tables s"
    if "repo_GetConfiguration s name = (r, s1)" "repo_GetSchema s1 name = (Inr schema, s2)"
    for r s2
    using repo_GetConfiguration_tables [OF that(1)] repo_GetSchema_tables [OF that(2)] by simp
  show ?thesis
    using t1 t2 by (auto simp: uc_CreateConfiguration_def uc_UpdateConfiguration_def v)
qed

theorem validation_failure_blocks_write_witness:
  "Validate demo_lib ''{\"required\":[\"k\"]}'' ''{}'' = Inr [(''(root)'', ''k is required'')] \<and>
   repo_GetConfiguration (run demo_lib (empty_db []) gated_calls) ''x'' =
     (Inr \<lparr>Name = ''x'', Version = 1, Data = ''{\"k\":1}'', CreatedAt = 10, UpdatedAt = 10,
           RollbackFrom = 0, RollbackTo = 0\<rparr>, run demo_lib (empty_db []) gated_calls) \<and>
   repo_GetSchema (run demo_lib (empty_db []) gated_calls) ''x'' =
     (Inr ''{\"required\":[\"k\"]}'', run demo_lib (empty_db []) gated_calls) \<and>
   uc_CreateConfiguration demo_lib (run demo_lib (empty_db []) gated_calls) ''x'' ''{}'' 20 =
     (Inl (NewAlreadyExistsError ''Configuration'' ''x''),
      run demo_lib (empty_db []) gated_calls) \<and>
   uc_UpdateConfiguration demo_lib (run demo_lib (empty_db []) gated_calls) ''x'' ''{}'' 20 =
     (Inl (NewValidationFailedError ''JSON validation failed''
        (ValidationDetails [\<lparr>Field = ''(root)'', Reason = ''k is required''\<rparr>])),
      run demo_lib (empty_db []) gated_calls) \<and>
   repo_GetConfiguration
       (run demo_lib (empty_db []) [RegisterSchema ''x'' ''{\"required\":[\"k\"]}'']) ''x'' =
     (Inl (NewNotFoundError ''Configuration'' ''x''),
      run demo_lib (empty_db []) [RegisterSchema ''x'' ''{\"required\":[\"k\"]}'']) \<and>
   repo_GetSchema
       (run demo_lib (empty_db []) [RegisterSchema ''x'' ''{\"required\":[\"k\"]}'']) ''x'' =
     (Inr ''{\"required\":[\"k\"]}'',
      run demo_lib (empty_db []) [RegisterSchema ''x'' ''{\"required\":[\"k\"]}'']) \<and>
   uc_UpdateConfiguration demo_lib
       (run demo_lib (empty_db []) [RegisterSchema ''x'' ''{\"required\":[\"k\"]}''])
       ''x'' ''{}'' 20 =
     (Inl (NewNotFoundError ''Configuration'' ''x''),
      run demo_lib (empty_db []) [RegisterSchema ''x'' ''{\"required\":[\"k\"]}'']) \<and>
   uc_CreateConfiguration demo_lib
       (run demo_lib (empty_db []) [RegisterSchema ''x'' ''{\"required\":[\"k\"]}''])
       ''x'' ''{}'' 20 =
     (Inl (NewValidationFailedError ''JSON validation failed''
        (ValidationDetails [\<lparr>Field = ''(root)'', Reason = ''k is required''\<rparr>])),
      run demo_lib (empty_db []) [RegisterSchema ''x'' ''{\"required\":[\"k\"]}''])"
proof -
  let ?s = "run demo_lib (empty_db []) gated_calls"
  let ?t = "run demo_lib (empty_db []) [RegisterSchema ''x'' ''{\"required\":[\"k\"]}'']"
  have bad: "Validate demo_lib ''{\"required\":[\"k\"]}'' ''{}'' = Inr [(''(root)'', ''k is required'')]"
    "[(''(root)'', ''k is required'')] \<noteq> []"
    by (simp_all add: demo_lib_def)
  have q: "faults ?s = []"
    by (simp add: gated_calls_def demo_lib_def repo_defs uc_defs err_defs)
  have g: "repo_GetConfiguration ?s ''x'' =
     (Inr \<lparr>Name = ''x'', Version = 1, Data = ''{\"k\":1}'', CreatedAt = 10, UpdatedAt = 10,
          RollbackFrom = 0, RollbackTo = 0\<rparr>, ?s)"
    using q by (simp add: gated_calls_def demo_lib_def repo_defs uc_defs err_defs)
  have sch: "repo_GetSchema ?s ''x'' = (Inr ''{\"required\":[\"k\"]}'', ?s)"
    using q by (simp add: gated_calls_def demo_lib_def repo_defs uc_defs err_defs)
  have q': "faults ?t = []"
    by (simp add: demo_lib_def repo_defs uc_defs err_defs)
  have g': "repo_GetConfiguration ?t ''x'' = (Inl (NewNotFoundError ''Configuration'' ''x''), ?t)"
    using q' by (simp add: demo_lib_def repo_defs uc_defs err_defs)
  have sch': "repo_GetSchema ?t ''x'' = (Inr ''{\"required\":[\"k\"]}'', ?t)"
    using q' by (simp add: demo_lib_def repo_defs uc_defs err_defs)
  note a = validation_failure_blocks_write [OF bad, of ?s "''x''" ?s 20,
      THEN conjunct1, rule_format, OF g]
  note b = validation_failure_blocks_write [OF bad, of ?t "''x''" ?t 20,
      THEN conjunct2, rule_format, OF g']
  have a1: "uc_CreateConfiguration demo_lib ?s ''x'' ''{}'' 20 =
     (Inl (NewAlreadyExistsError ''Configuration'' ''x''), ?s)"
    using a by simp
  have a2: "uc_UpdateConfiguration demo_lib ?s ''x'' ''{}'' 20 =
     (Inl (NewValidationFailedError ''JSON validation failed''
        (ValidationDetails [\<lparr>Field = ''(root)'', Reason = ''k is required''\<rparr>])), ?s)"
    using a [THEN conjunct2, THEN conjunct2, rule_format, OF sch] by simp
  have b1: "uc_UpdateConfiguration demo_lib ?t ''x'' ''{}'' 20 =
     (Inl (NewNotFoundError ''Configuration'' ''x''), ?t)"
    using b by simp
  have b2: "uc_CreateConfiguration demo_lib ?t ''x'' ''{}'' 20 =
     (Inl (NewValidationFailedError ''JSON validation failed''
        (ValidationDetails [\<lparr>Field = ''(root)'', Reason = ''k is required''\<rparr>])), ?t)"
    using b [THEN conjunct2, THEN conjunct2, rule_format, OF sch'] by simp
  show ?thesis
    using bad(1) g sch a1 a2 g' sch' b1 b2 by simp
qed

lemma code_of_New [simp]:
  "code_of (NewNotFoundError a b) = Some NOT_FOUND"
  "code_of (NewAlreadyExistsError a b) = Some ALREADY_EXISTS"
  "code_of (NewInvalidRequestError m d) = Some INVALID_REQUEST"
  "code_of (NewValidationFailedError m d) = Some VALIDATION_FAILED"
  "code_of (NewInternalError m d) = Some INTERNAL_ERROR"
  by (simp_all add: err_defs)

lemma ValidateJSON_code:
  "ValidateJSON lib schema data = Some e \<Longrightarrow>
   code_of e = Some VALIDATION_FAILED \<or> code_of e = Some INTERNAL_ERROR"
  by (auto simp: ValidateJSON_def split: sum.splits if_splits)

lemma ValidateSchemaDefinition_code:
  "ValidateSchemaDefinition lib schema = Some e \<Longrightarrow> code_of e = Some INVALID_REQUEST"
  by (auto simp: ValidateSchemaDefinition_def split: option.splits)

lemma uc_CreateConfiguration_code:
  "uc_CreateConfiguration lib s name data now = (Inl e, s') \<Longrightarrow>
   code_of e \<in> {Some ALREADY_EXISTS, Some VALIDATION_FAILED, Some INTERNAL_ERROR}"
  by (auto simp: uc_CreateConfiguration_def Let_def
      split: prod.splits sum.splits option.splits dest: ValidateJSON_code)

lemma uc_UpdateConfiguration_code:
  "uc_UpdateConfiguration lib s name data now = (Inl e, s') \<Longrightarrow>
   code_of e \<in> {Some NOT_FOUND, Some VALIDATION_FAILED, Some INTERNAL_ERROR}"
  by (auto simp: uc_UpdateConfiguration_def Let_def
      split: prod.splits sum.splits option.splits dest: ValidateJSON_code)

lemma uc_RollbackConfiguration_code:
  "uc_RollbackConfiguration lib s name tv now = (Inl e, s') \<Longrightarrow>
   code_of e \<in> {Some NOT_FOUND, Some INTERNAL_ERROR}"
  by (auto simp: uc_RollbackConfiguration_def Let_def
      split: prod.splits sum.splits option.splits)

lemma uc_GetConfiguration_code:
  "uc_GetConfiguration lib s name = (Inl e, s') \<Longrightarrow> code_of e = Some NOT_FOUND"
  by (auto simp: uc_GetConfiguration_def split: prod.splits sum.splits)

lemma uc_GetConfigurationVersion_code:
  "uc_GetConfigurationVersion lib s name v = (Inl e, s') \<Longrightarrow> code_of e = Some NOT_FOUND"
  by (auto simp: uc_GetConfigurationVersion_def split: prod.splits sum.splits)

lemma uc_ListConfigurationVersions_code:
  "uc_ListConfigurationVersions lib s name = (Inl e, s') \<Longrightarrow>
   code_of e \<in> {Some NOT_FOUND, Some INTERNAL_ERROR}"
  by (auto simp: uc_ListConfigurationVersions_def split: prod.splits sum.splits)

lemma uc_RegisterSchema_code:
  "uc_RegisterSchema lib s name schema = (Some e, s') \<Longrightarrow>
   code_of e \<in> {Some INVALID_REQUEST, Some INTERNAL_ERROR}"
  by (auto simp: uc_RegisterSchema_def split: prod.splits option.splits
      dest: ValidateSchemaDefinition_code)

lemma uc_GetSchema_code:
  "uc_GetSchema lib s name = (Inl e, s') \<Longrightarrow> code_of e = Some NOT_FOUND"
  by (auto simp: uc_GetSchema_def split: prod.splits sum.splits)

lemma uc_ValidateConfigurationData_code:
  "uc_ValidateConfigurationData lib s name data = (Some e, s') \<Longrightarrow>
   code_of e \<in> {Some NOT_FOUND, Some VALIDATION_FAILED, Some INTERNAL_ERROR}"
  by (auto simp: uc_ValidateConfigurationData_def split: prod.splits sum.splits
      dest: ValidateJSON_code)

lemma exec_code:
  assumes "fst (exec lib s c) = Some e"
  shows "code_of e \<in> {Some NOT_FOUND, Some ALREADY_EXISTS, Some VALIDATION_FAILED,
                       Some INVALID_REQUEST, Some INTERNAL_ERROR}"
proof (cases c)
  case (Create name data now)
  then show ?thesis
    using assms uc_CreateConfiguration_code [of lib s name data now e]
    by (auto split: prod.splits sum.splits)
next
  case (Update name data now)
  then show ?thesis
    using assms uc_UpdateConfiguration_code [of lib s name data now e]
    by (auto split: prod.splits sum.splits)
next
  case (Rollback name tv now)
  then show ?thesis
    using assms uc_RollbackConfiguration_code [of lib s name tv now e]
    by (auto split: prod.splits sum.splits)
next
  case (Get name)
  then show ?thesis
    using assms uc_GetConfiguration_code [of lib s name e]
    by (auto split: prod.splits sum.splits)
next
  case (GetVersion name v)
  then show ?thesis
    using assms uc_GetConfigurationVersion_code [of lib s name v e]
    by (auto split: prod.splits sum.splits)
next
  case (ListVersions name)
  then show ?thesis
    using assms uc_ListConfigurationVersions_code [of lib s name e]
    by (auto split: prod.splits sum.splits)
next
  case (RegisterSchema name schema)
  then show ?thesis
    using assms uc_RegisterSchema_code [of lib s name schema e]
    by (cases "uc_RegisterSchema lib s name schema") auto
next
  case (GetSchema name)
  then show ?thesis
    using assms uc_GetSchema_code [of lib s name e]
    by (auto split: prod.splits sum.splits)
next
  case (ValidateData name data)
  then show ?thesis
    using assms uc_ValidateConfigurationData_code [of lib s name data e]
    by (cases "uc_ValidateConfigurationData lib s name data") auto
qed

lemma lookup_failure_not_found:
  assumes "fst (repo_GetConfiguration s name) = Inl e0"
  shows "fst (uc_GetConfiguration lib s name) = Inl (NewNotFoundError ''Configuration'' name)"
    and "fst (uc_UpdateConfiguration lib s name data now) =
           Inl (NewNotFoundError ''Configuration'' name)"
    and "fst (uc_RollbackConfiguration lib s name tv now) =
           Inl (NewNotFoundError ''Configuration'' name)"
    and "fst (uc_ListConfigurationVersions lib s name) =
           Inl (NewNotFoundError ''Configuration'' name)"
  using assms
  by (cases "repo_GetConfiguration s name";
      simp add: uc_GetConfiguration_def uc_UpdateConfiguration_def
        uc_RollbackConfiguration_def uc_ListConfigurationVersions_def)+

lemma version_lookup_failure_not_found:
  assumes "fst (repo_GetConfigurationVersion s name tv) = Inl e0"
  shows "fst (uc_GetConfigurationVersion lib s name tv) =
           Inl (NewNotFoundError ''Configuration version'' name)"
  using assms
  by (cases "repo_GetConfigurationVersion s name tv") (simp add: uc_GetConfigurationVersion_def)

lemma schema_lookup_failure_not_found:
  assumes "fst (repo_GetSchema s name) = Inl e0"
  shows "fst (uc_GetSchema lib s name) = Inl (NewNotFoundError ''Schema'' name)"
    and "fst (uc_ValidateConfigurationData lib s name data) =
           Some (NewNotFoundError ''Schema'' name)"
  using assms
  by (cases "repo_GetSchema s name";
      simp add: uc_GetSchema_def uc_ValidateConfigurationData_def)+

lemma payload_lookup_failure_not_found:
  assumes "repo_GetConfiguration s name = (Inr c0, s1)"
    and "fst (repo_GetVersionData s1 name tv) = Inl e0"
  shows "fst (uc_RollbackConfiguration lib s name tv now) =
           Inl (NewNotFoundError ''Configuration version'' name)"
  using assms
  by (cases "repo_GetVersionData s1 name tv") (simp add: uc_RollbackConfiguration_def)

lemma validator_failure_returned:
  assumes "repo_GetSchema s1 name = (Inr schema, s2)"
    and "ValidateJSON lib schema data = Some err"
  shows "repo_GetConfiguration s name = (Inl e0, s1) \<Longrightarrow>
           fst (uc_CreateConfiguration lib s name data now) = Inl err"
    and "repo_GetConfiguration s name = (Inr c0, s1) \<Longrightarrow>
           fst (uc_UpdateConfiguration lib s name data now) = Inl err"
    and "fst (uc_ValidateConfigurationData lib s1 name data) = Some err"
  using assms
  by (simp_all add: uc_CreateConfiguration_def uc_UpdateConfiguration_def
      uc_ValidateConfigurationData_def)

lemma create_write_failure_internal:
  assumes "repo_GetConfiguration s name = (Inl e0, s1)"
    and "repo_GetSchema s1 name = (r2, s2)"
    and "(case r2 of Inr schema \<Rightarrow> ValidateJSON lib schema data | Inl _ \<Rightarrow> None) = None"
  shows "fst (repo_CreateConfiguration s2 (NewConfiguration name data now)) = Some e3 \<Longrightarrow>
           fst (uc_CreateConfiguration lib s name data now) =
             Inl (NewInternalError ''Failed to create configuration'' (TextDetails (Error e3)))"
    and "repo_CreateConfiguration s2 (NewConfiguration name data now) = (None, s3) \<Longrightarrow>
         fst (repo_StoreVersionData s3 name 1 data) = Some e4 \<Longrightarrow>
           fst (uc_CreateConfiguration lib s name data now) =
             Inl (NewInternalError ''Failed to store version data'' (TextDetails (Error e4)))"
proof -
  show "fst (uc_CreateConfiguration lib s name data now) =
          Inl (NewInternalError ''Failed to create configuration'' (TextDetails (Error e3)))"
    if "fst (repo_CreateConfiguration s2 (NewConfiguration name data now)) = Some e3"
    using that assms
    by (cases "repo_CreateConfiguration s2 (NewConfiguration name data now)")
      (simp add: uc_CreateConfiguration_def Let_def)
  show "fst (uc_CreateConfiguration lib s name data now) =
          Inl (NewInternalError ''Failed to store version data'' (TextDetails (Error e4)))"
    if "repo_CreateConfiguration s2 (NewConfiguration name data now) = (None, s3)"
      and "fst (repo_StoreVersionData s3 name 1 data) = Some e4"
    using that assms
    by (cases "repo_StoreVersionData s3 name 1 data")
      (simp add: uc_CreateConfiguration_def Let_def)
qed

lemma update_write_failure_internal:
  assumes "repo_GetConfiguration s name = (Inr c0, s1)"
    and "repo_GetSchema s1 name = (r2, s2)"
    and "(case r2 of Inr schema \<Rightarrow> ValidateJSON lib schema data | Inl _ \<Rightarrow> None) = None"
  shows "fst (repo_UpdateConfiguration s2 (UpdateVersion c0 data now)) = Some e3 \<Longrightarrow>
           fst (uc_UpdateConfiguration lib s name data now) =
             Inl (NewInternalError ''Failed to update configuration'' (TextDetails (Error e3)))"
    and "repo_UpdateConfiguration s2 (UpdateVersion c0 data now) = (None, s3) \<Longrightarrow>
         fst (repo_StoreVersionData s3 name (Version (UpdateVersion c0 data now)) data) =
           Some e4 \<Longrightarrow>
           fst (uc_UpdateConfiguration lib s name data now) =
             Inl (NewInternalError ''Failed to store version data'' (TextDetails (Error e4)))"
proof -
  show "fst (uc_UpdateConfiguration lib s name data now) =
          Inl (NewInternalError ''Failed to update configuration'' (TextDetails (Error e3)))"
    if "fst (repo_UpdateConfiguration s2 (UpdateVersion c0 data now)) = Some e3"
    using that assms
    by (cases "repo_UpdateConfiguration s2 (UpdateVersion c0 data now)")
      (simp add: uc_UpdateConfiguration_def Let_def)
  show "fst (uc_UpdateConfiguration lib s name data now) =
          Inl (NewInternalError ''Failed to store version data'' (TextDetails (Error e4)))"
    if "repo_UpdateConfiguration s2 (UpdateVersion c0 data now) = (None, s3)"
      and "fst (repo_StoreVersionData s3 name (Version (UpdateVersion c0 data now)) data) =
        Some e4"
    using that assms
    by (cases "repo_StoreVersionData s3 name (go_int (Version c0 + 1)) data")
      (simp add: uc_UpdateConfiguration_def Let_def)
qed

lemma rollback_write_failure_internal:
  assumes "repo_GetConfiguration s name = (Inr c0, s1)"
    and "repo_GetVersionData s1 name tv = (Inr td, s2)"
  shows "fst (repo_UpdateConfiguration s2 (NewVersionFromRollback c0 tv td now)) = Some e3 \<Longrightarrow>
           fst (uc_RollbackConfiguration lib s name tv now) =
             Inl (NewInternalError ''Failed to rollback configuration''
                    (TextDetails (Error e3)))"
    and "repo_UpdateConfiguration s2 (NewVersionFromRollback c0 tv td now) = (None, s3) \<Longrightarrow>
         fst (repo_StoreVersionData s3 name
                (Version (NewVersionFromRollback c0 tv td now)) td) = Some e4 \<Longrightarrow>
           fst (uc_RollbackConfiguration lib s name tv now) =
             Inl (NewInternalError ''Failed to store version data'' (TextDetails (Error e4)))"
proof -
  show "fst (uc_RollbackConfiguration lib s name tv now) =
          Inl (NewInternalError ''Failed to rollback configuration'' (TextDetails (Error e3)))"
    if "fst (repo_UpdateConfiguration s2 (NewVersionFromRollback c0 tv td now)) = Some e3"
    using that assms
    by (cases "repo_UpdateConfiguration s2 (NewVersionFromRollback c0 tv td now)")
      (simp add: uc_RollbackConfiguration_def Let_def)
  show "fst (uc_RollbackConfiguration lib s name tv now) =
          Inl (NewInternalError ''Failed to store version data'' (TextDetails (Error e4)))"
    if "repo_UpdateConfiguration s2 (NewVersionFromRollback c0 tv td now) = (None, s3)"
      and "fst (repo_StoreVersionData s3 name
                (Version (NewVersionFromRollback c0 tv td now)) td) = Some e4"
    using that assms
    by (cases "repo_StoreVersionData s3 name (go_int (Version c0 + 1)) td")
      (simp add: uc_RollbackConfiguration_def Let_def)
qed

lemma other_write_failure_internal:
  shows "ValidateSchemaDefinition lib schema = None \<Longrightarrow>
         fst (repo_RegisterSchema s name schema) = Some e3 \<Longrightarrow>
           fst (uc_RegisterSchema lib s name schema) =
             Some (NewInternalError ''Failed to register schema'' (TextDetails (Error e3)))"
    and "repo_GetConfiguration s name = (Inr c0, s1) \<Longrightarrow>
         fst (repo_ListConfigurationVersions s1 name) = Inl e3 \<Longrightarrow>
           fst (uc_ListConfigurationVersions lib s name) =
             Inl (NewInternalError ''Failed to list configuration versions''
                    (TextDetails (Error e3)))"
    and "ValidateSchemaDefinition lib schema = Some err \<Longrightarrow>
           uc_RegisterSchema lib s name schema = (Some err, s)"
proof -
  show "fst (uc_RegisterSchema lib s name schema) =
          Some (NewInternalError ''Failed to register schema'' (TextDetails (Error e3)))"
    if "ValidateSchemaDefinition lib schema = None"
      and "fst (repo_RegisterSchema s name schema) = Some e3"
    using that
    by (cases "repo_RegisterSchema s name schema") (simp add: uc_RegisterSchema_def)
  show "fst (uc_ListConfigurationVersions lib s name) =
          Inl (NewInternalError ''Failed to list configuration versions''
                 (TextDetails (Error e3)))"
    if "repo_GetConfiguration s name = (Inr c0, s1)"
      and "fst (repo_ListConfigurationVersions s1 name) = Inl e3"
    using that
    by (cases "repo_ListConfigurationVersions s1 name")
      (simp add: uc_ListConfigurationVersions_def)
  show "uc_RegisterSchema lib s name schema = (Some err, s)"
    if "ValidateSchemaDefinition lib schema = Some err"
    using that by (simp add: uc_RegisterSchema_def)
qed

lemma rows_loop_prefix:
  "rows_loop s rs infos = (Inr out, s') \<Longrightarrow>
   \<exists>k. out = infos @ map (\<lambda>r. \<lparr>VI_Version = ver_version r, VI_CreatedAt = ver_created_at r,
                     IsRollback = ver_is_rollback r\<rparr>) (take k rs)"
proof (induction s rs infos rule: rows_loop.induct)
  case (1 s infos)
  then show ?case by simp
next
  case (2 s r rs infos)
  show ?case
  proof (cases "fault_now s")
    case True
    then have "out = infos" using 2 by simp
    then have "out = infos @ map (\<lambda>r. \<lparr>VI_Version = ver_version r, VI_CreatedAt = ver_created_at r,
                     IsRollback = ver_is_rollback r\<rparr>) (take 0 (r # rs))" by simp
    then show ?thesis by blast
  next
    case False
    then have nf: "\<not> fault_now (advance s)"
      using 2(2) by (auto split: if_splits)
    then have "rows_loop (advance (advance s)) rs
        (infos @ [\<lparr>VI_Version = ver_version r, VI_CreatedAt = ver_created_at r,
                   IsRollback = ver_is_rollback r\<rparr>]) = (Inr out, s')"
      using 2(2) False by simp
    from 2(1) [OF False nf this]
    obtain k where "out = (infos @ [\<lparr>VI_Version = ver_version r,
        VI_CreatedAt = ver_created_at r, IsRollback = ver_is_rollback r\<rparr>]) @
        map (\<lambda>r. \<lparr>VI_Version = ver_version r, VI_CreatedAt = ver_created_at r,
                     IsRollback = ver_is_rollback r\<rparr>) (take k rs)" by blast
    then have "out = infos @ map (\<lambda>r. \<lparr>VI_Version = ver_version r, VI_CreatedAt = ver_created_at r,
                     IsRollback = ver_is_rollback r\<rparr>) (take (Suc k) (r # rs))" by simp
    then show ?thesis by blast
  qed
qed

lemma listing_is_prefix:
  assumes ok: "uc_ListConfigurationVersions lib s name = (Inr vl, s')"
  shows "VL_Name vl = name"
    and "\<exists>k. Versions vl = map (\<lambda>r. \<lparr>VI_Version = ver_version r, VI_CreatedAt = ver_created_at r,
                     IsRollback = ver_is_rollback r\<rparr>) (take k (select_versions s name))"
proof -
  obtain r1 s1 where g: "repo_GetConfiguration s name = (r1, s1)" by fastforce
  have "tables s1 = tables s" by (rule repo_GetConfiguration_tables [OF g])
  then have sv: "select_versions s1 name = select_versions s name"
    by (simp add: tables_eq_iff select_versions_def)
  from ok obtain c0 where r1: "r1 = Inr c0"
    by (cases r1) (simp_all add: uc_ListConfigurationVersions_def g)
  from ok have l: "repo_ListConfigurationVersions s1 name = (Inr vl, s')"
    by (cases "repo_ListConfigurationVersions s1 name")
      (auto simp: uc_ListConfigurationVersions_def g r1 split: sum.splits)
  then obtain infos where
    loop: "rows_loop (advance (advance s1)) (select_versions s1 name) [] = (Inr infos, s')"
    and vl: "vl = \<lparr>VL_Name = name, Versions = infos\<rparr>"
    by (auto simp: repo_ListConfigurationVersions_def Let_def
        split: if_splits prod.splits sum.splits)
  show "VL_Name vl = name" using vl by simp
  from rows_loop_prefix [OF loop]
  show "\<exists>k. Versions vl = map (\<lambda>r. \<lparr>VI_Version = ver_version r, VI_CreatedAt = ver_created_at r,
                     IsRollback = ver_is_rollback r\<rparr>) (take k (select_versions s name))"
    using vl sv by simp
qed

text \<open>
  Claim C2 as stated: a store failure other than absence is never reported as
  \<open>NOT_FOUND\<close>, and no store failure is ignored. It fails three times. The row and the
  payload of \<open>a\<close> exist and the query fails in the driver: \<open>Get\<close> reports
  \<open>NOT_FOUND\<close>. A schema is registered for \<open>b\<close> and its query fails in the driver:
  \<open>Create\<close> goes on without validation and succeeds, with data that the schema rejects.
  The configuration \<open>a\<close> has two versions and the driver fails when the second row of
  the listing is fetched: \<open>ListVersions\<close> returns the first version alone, without an
  error.
\<close>

theorem store_failure_as_not_found_counterexample:
  "configurations lost_connection_db ''a'' =
     Some \<lparr>cfg_version = 1, cfg_created_at = 10, cfg_updated_at = 10,
           cfg_rollback_from = None, cfg_rollback_to = None\<rparr> \<and>
   version_data lost_connection_db (''a'', 1) = Some ''{\"k\":1}'' \<and>
   fst (repo_GetConfiguration lost_connection_db ''a'') = Inl DriverError \<and>
   fst (uc_GetConfiguration demo_lib lost_connection_db ''a'') =
     Inl (NewNotFoundError ''Configuration'' ''a'') \<and>
   schemas lost_schema_query_db ''b'' = Some ''{\"required\":[\"k\"]}'' \<and>
   fst (repo_GetSchema (snd (repo_GetConfiguration lost_schema_query_db ''b'')) ''b'') =
     Inl DriverError \<and>
   ValidateJSON demo_lib ''{\"required\":[\"k\"]}'' ''{}'' =
     Some (NewValidationFailedError ''JSON validation failed''
       (ValidationDetails [\<lparr>Field = ''(root)'', Reason = ''k is required''\<rparr>])) \<and>
   fst (uc_CreateConfiguration demo_lib lost_schema_query_db ''b'' ''{}'' 10) =
     Inr (NewConfiguration ''b'' ''{}'' 10) \<and>
   map ver_version (select_versions lost_rows_db ''a'') = [1, 2] \<and>
   faults lost_rows_db = [False, False, False, False, False, False, True] \<and>
   fst (uc_ListConfigurationVersions demo_lib lost_rows_db ''a'') =
     Inr \<lparr>VL_Name = ''a'',
          Versions = [\<lparr>VI_Version = 1, VI_CreatedAt = 10, IsRollback = False\<rparr>]\<rparr>"
  by (simp add: lost_connection_db_def lost_schema_query_db_def lost_rows_db_def demo_lib_def
      repo_defs uc_defs err_defs)

text \<open>
  Claim C2, amended. Every error returned by an operation of the engine is an application
  error of kind \<open>NOT_FOUND\<close>, \<open>ALREADY_EXISTS\<close>, \<open>VALIDATION_FAILED\<close>,
  \<open>INVALID_REQUEST\<close> or \<open>INTERNAL_ERROR\<close>, never a raw error of the store. A failed
  lookup in \<open>Get\<close>, \<open>GetVersion\<close>, \<open>ListVersions\<close>, \<open>Update\<close>, \<open>Rollback\<close>,
  \<open>GetSchema\<close> or \<open>ValidateData\<close> is returned as \<open>NOT_FOUND\<close>, whatever the error of
  the store. An error of the validator on the schema of \<open>RegisterSchema\<close> or on the data
  of \<open>ValidateData\<close>, \<open>Create\<close> or \<open>Update\<close> (once the schema has been read) is
  returned as it is. An error returned by a write of the store (\<^verbatim>\<open>RegisterSchema\<close>,
  \<^verbatim>\<open>CreateConfiguration\<close>, \<^verbatim>\<open>UpdateConfiguration\<close>, \<^verbatim>\<open>StoreVersionData\<close>) or by
  \<^verbatim>\<open>ListConfigurationVersions\<close> of the store (its existence check, its query, the scan
  of a row) is returned as \<open>INTERNAL_ERROR\<close> carrying the message of the store. A
  failure that ends the iteration over the rows of a listing is not an error of the
  store function and is not reported: what \<open>ListVersions\<close> returns without an error is
  the name with a prefix of the version list of the name, ordered by version.
\<close>

theorem engine_failures_classified:
  "(\<forall>e. fst (exec lib s call) = Some e \<longrightarrow>
      code_of e \<in> {Some NOT_FOUND, Some ALREADY_EXISTS, Some VALIDATION_FAILED,
                    Some INVALID_REQUEST, Some INTERNAL_ERROR}) \<and>
   (\<forall>e0. fst (repo_GetConfiguration s name) = Inl e0 \<longrightarrow>
      fst (uc_GetConfiguration lib s name) = Inl (NewNotFoundError ''Configuration'' name) \<and>
      fst (uc_UpdateConfiguration lib s name data now) =
        Inl (NewNotFoundError ''Configuration'' name) \<and>
      fst (uc_RollbackConfiguration lib s name tv now) =
        Inl (NewNotFoundError ''Configuration'' name) \<and>
      fst (uc_ListConfigurationVersions lib s name) =
        Inl (NewNotFoundError ''Configuration'' name)) \<and>
   (\<forall>e0. fst (repo_GetConfigurationVersion s name tv) = Inl e0 \<longrightarrow>
      fst (uc_GetConfigurationVersion lib s name tv) =
        Inl (NewNotFoundError ''Configuration version'' name)) \<and>
   (\<forall>e0. fst (repo_GetSchema s name) = Inl e0 \<longrightarrow>
      fst (uc_GetSchema lib s name) = Inl (NewNotFoundError ''Schema'' name) \<and>
      fst (uc_ValidateConfigurationData lib s name data) =
        Some (NewNotFoundError ''Schema'' name)) \<and>
   (\<forall>c0 s1 e0. repo_GetConfiguration s name = (Inr c0, s1) \<longrightarrow>
      fst (repo_GetVersionData s1 name tv) = Inl e0 \<longrightarrow>
      fst (uc_RollbackConfiguration lib s name tv now) =
        Inl (NewNotFoundError ''Configuration version'' name)) \<and>
   (\<forall>err. ValidateSchemaDefinition lib schema = Some err \<longrightarrow>
      uc_RegisterSchema lib s name schema = (Some err, s)) \<and>
   (\<forall>r1 s1 sch s2 err. repo_GetConfiguration s name = (r1, s1) \<longrightarrow>
      repo_GetSchema s1 name = (Inr sch, s2) \<longrightarrow> ValidateJSON lib sch data = Some err \<longrightarrow>
      fst (uc_ValidateConfigurationData lib s1 name data) = Some err \<and>
      (case r1 of
         Inl _ \<Rightarrow> fst (uc_CreateConfiguration lib s name data now) = Inl err
       | Inr _ \<Rightarrow> fst (uc_UpdateConfiguration lib s name data now) = Inl err)) \<and>
   (\<forall>e3. ValidateSchemaDefinition lib schema = None \<longrightarrow>
      fst (repo_RegisterSchema s name schema) = Some e3 \<longrightarrow>
      fst (uc_RegisterSchema lib s name schema) =
        Some (NewInternalError ''Failed to register schema'' (TextDetails (Error e3)))) \<and>
   (\<forall>c0 s1 e3. repo_GetConfiguration s name = (Inr c0, s1) \<longrightarrow>
      fst (repo_ListConfigurationVersions s1 name) = Inl e3 \<longrightarrow>
      fst (uc_ListConfigurationVersions lib s name) =
        Inl (NewInternalError ''Failed to list configuration versions''
               (TextDetails (Error e3)))) \<and>
   (\<forall>e0 s1 r2 s2. repo_GetConfiguration s name = (Inl e0, s1) \<longrightarrow>
      repo_GetSchema s1 name = (r2, s2) \<longrightarrow>
      (case r2 of Inr sch \<Rightarrow> ValidateJSON lib sch data | Inl _ \<Rightarrow> None) = None \<longrightarrow>
      (\<forall>e3. fst (repo_CreateConfiguration s2 (NewConfiguration name data now)) = Some e3 \<longrightarrow>
         fst (uc_CreateConfiguration lib s name data now) =
           Inl (NewInternalError ''Failed to create configuration''
                  (TextDetails (Error e3)))) \<and>
      (\<forall>s3 e4. repo_CreateConfiguration s2 (NewConfiguration name data now) = (None, s3) \<longrightarrow>
         fst (repo_StoreVersionData s3 name 1 data) = Some e4 \<longrightarrow>
         fst (uc_CreateConfiguration lib s name data now) =
           Inl (NewInternalError ''Failed to store version data''
                  (TextDetails (Error e4))))) \<and>
   (\<forall>c0 s1 r2 s2. repo_GetConfiguration s name = (Inr c0, s1) \<longrightarrow>
      repo_GetSchema s1 name = (r2, s2) \<longrightarrow>
      (case r2 of Inr sch \<Rightarrow> ValidateJSON lib sch data | Inl _ \<Rightarrow> None) = None \<longrightarrow>
      (\<forall>e3. fst (repo_UpdateConfiguration s2 (UpdateVersion c0 data now)) = Some e3 \<longrightarrow>
         fst (uc_UpdateConfiguration lib s name data now) =
           Inl (NewInternalError ''Failed to update configuration''
                  (TextDetails (Error e3)))) \<and>
      (\<forall>s3 e4. repo_UpdateConfiguration s2 (UpdateVersion c0 data now) = (None, s3) \<longrightarrow>
         fst (repo_StoreVersionData s3 name (Version (UpdateVersion c0 data now)) data) =
           Some e4 \<longrightarrow>
         fst (uc_UpdateConfiguration lib s name data now) =
           Inl (NewInternalError ''Failed to store version data''
                  (TextDetails (Error e4))))) \<and>
   (\<forall>c0 s1 td s2. repo_GetConfiguration s name = (Inr c0, s1) \<longrightarrow>
      repo_GetVersionData s1 name tv = (Inr td, s2) \<longrightarrow>
      (\<forall>e3. fst (repo_UpdateConfiguration s2 (NewVersionFromRollback c0 tv td now)) =
           Some e3 \<longrightarrow>
         fst (uc_RollbackConfiguration lib s name tv now) =
           Inl (NewInternalError ''Failed to rollback configuration''
                  (TextDetails (Error e3)))) \<and>
      (\<forall>s3 e4. repo_UpdateConfiguration s2 (NewVersionFromRollback c0 tv td now) =
           (None, s3) \<longrightarrow>
         fst (repo_StoreVersionData s3 name
                (Version (NewVersionFromRollback c0 tv td now)) td) = Some e4 \<longrightarrow>
         fst (uc_RollbackConfiguration lib s name tv now) =
           Inl (NewInternalError ''Failed to store version data''
                  (TextDetails (Error e4))))) \<and>
   (\<forall>vl s'. uc_ListConfigurationVersions lib s name = (Inr vl, s') \<longrightarrow>
      VL_Name vl = name \<and>
      (\<exists>k. Versions vl =
         map (\<lambda>r. \<lparr>VI_Version = ver_version r, VI_CreatedAt = ver_created_at r,
                     IsRollback = ver_is_rollback r\<rparr>)
           (take k (select_versions s name))))"
proof (intro conjI allI impI)
  fix vl s'
  assume l: "uc_ListConfigurationVersions lib s name = (Inr vl, s')"
  show "VL_Name vl = name" by (rule listing_is_prefix(1) [OF l])
  show "\<exists>k. Versions vl =
         map (\<lambda>r. \<lparr>VI_Version = ver_version r, VI_CreatedAt = ver_created_at r,
                     IsRollback = ver_is_rollback r\<rparr>)
           (take k (select_versions s name))"
    by (rule listing_is_prefix(2) [OF l])
next
  fix r1 s1 sch s2 err
  assume a: "repo_GetConfiguration s name = (r1, s1)" "repo_GetSchema s1 name = (Inr sch, s2)"
    "ValidateJSON lib sch data = Some err"
  show "case r1 of
         Inl _ \<Rightarrow> fst (uc_CreateConfiguration lib s name data now) = Inl err
       | Inr _ \<Rightarrow> fst (uc_UpdateConfiguration lib s name data now) = Inl err"
    using validator_failure_returned(1,2) [OF a(2,3)] a(1) by (cases r1) auto
qed (erule exec_code lookup_failure_not_found version_lookup_failure_not_found
      schema_lookup_failure_not_found payload_lookup_failure_not_found
      validator_failure_returned other_write_failure_internal
      create_write_failure_internal update_write_failure_internal
      rollback_write_failure_internal; assumption)+

theorem engine_failures_classified_witness:
  "fst (repo_GetConfiguration lost_connection_db ''a'') = Inl DriverError \<and>
   fst (uc_RollbackConfiguration demo_lib lost_connection_db ''a'' 1 20) =
     Inl (NewNotFoundError ''Configuration'' ''a'') \<and>
   fst (exec demo_lib lost_connection_db (Rollback ''a'' 1 20)) =
     Some (NewNotFoundError ''Configuration'' ''a'') \<and>
   code_of (NewNotFoundError ''Configuration'' ''a'') \<in>
     {Some NOT_FOUND, Some ALREADY_EXISTS, Some VALIDATION_FAILED,
      Some INVALID_REQUEST, Some INTERNAL_ERROR} \<and>
   fst (repo_UpdateConfiguration
          (snd (repo_GetSchema (snd (repo_GetConfiguration lost_write_db ''a'')) ''a''))
          (UpdateVersion \<lparr>Name = ''a'', Version = 1, Data = ''{\"k\":1}'', CreatedAt = 10,
             UpdatedAt = 10, RollbackFrom = 0, RollbackTo = 0\<rparr> ''{\"k\":2}'' 20)) =
     Some DriverError \<and>
   fst (uc_UpdateConfiguration demo_lib lost_write_db ''a'' ''{\"k\":2}'' 20) =
     Inl (NewInternalError ''Failed to update configuration''
            (TextDetails ''driver: bad connection'')) \<and>
   fst (repo_ListConfigurationVersions (snd (repo_GetConfiguration lost_write_db ''a'')) ''a'') =
     Inl DriverError \<and>
   fst (uc_ListConfigurationVersions demo_lib lost_write_db ''a'') =
     Inl (NewInternalError ''Failed to list configuration versions''
            (TextDetails ''driver: bad connection'')) \<and>
   fst (uc_ListConfigurationVersions demo_lib lost_rows_db ''a'') =
     Inr \<lparr>VL_Name = ''a'',
          Versions = [\<lparr>VI_Version = 1, VI_CreatedAt = 10, IsRollback = False\<rparr>]\<rparr> \<and>
   (\<exists>k. [\<lparr>VI_Version = 1, VI_CreatedAt = 10, IsRollback = False\<rparr>] =
      map (\<lambda>r. \<lparr>VI_Version = ver_version r, VI_CreatedAt = ver_created_at r,
                  IsRollback = ver_is_rollback r\<rparr>)
        (take k (select_versions lost_rows_db ''a'')))"
proof -
  have g: "fst (repo_GetConfiguration lost_connection_db ''a'') = Inl DriverError"
    by (simp add: lost_connection_db_def demo_lib_def repo_defs uc_defs err_defs)
  have x: "fst (exec demo_lib lost_connection_db (Rollback ''a'' 1 20)) =
     Some (NewNotFoundError ''Configuration'' ''a'')"
    by (simp add: lost_connection_db_def demo_lib_def repo_defs uc_defs err_defs)
  let ?c0 = "\<lparr>Name = ''a'', Version = 1, Data = ''{\"k\":1}'', CreatedAt = 10,
             UpdatedAt = 10, RollbackFrom = 0, RollbackTo = 0\<rparr>"
  let ?s1 = "snd (repo_GetConfiguration lost_write_db ''a'')"
  let ?s2 = "snd (repo_GetSchema ?s1 ''a'')"
  have w1: "repo_GetConfiguration lost_write_db ''a'' = (Inr ?c0, ?s1)"
    by (simp add: lost_write_db_def demo_lib_def repo_defs uc_defs err_defs)
  have w2: "repo_GetSchema ?s1 ''a'' = (Inl (NewNotFoundError ''Schema'' ''a''), ?s2)"
    by (simp add: lost_write_db_def demo_lib_def repo_defs uc_defs err_defs)
  have w3: "fst (repo_UpdateConfiguration ?s2 (UpdateVersion ?c0 ''{\"k\":2}'' 20)) =
      Some DriverError"
    by (simp add: lost_write_db_def demo_lib_def repo_defs uc_defs err_defs)
  note a = engine_failures_classified
    [of demo_lib lost_connection_db "Rollback ''a'' 1 20" "''a''" "''{}''" 20 1 "''{}''"]
  note b = engine_failures_classified
    [of demo_lib lost_write_db "Get ''a''" "''a''" "''{\"k\":2}''" 20 1 "''{}''"]
  have r: "fst (uc_RollbackConfiguration demo_lib lost_connection_db ''a'' 1 20) =
     Inl (NewNotFoundError ''Configuration'' ''a'')"
    using a [THEN conjunct2, THEN conjunct1, rule_format, OF g] by simp
  have k: "code_of (NewNotFoundError ''Configuration'' ''a'') \<in>
     {Some NOT_FOUND, Some ALREADY_EXISTS, Some VALIDATION_FAILED,
      Some INVALID_REQUEST, Some INTERNAL_ERROR}"
    using a [THEN conjunct1, rule_format, OF x] .
  have u: "fst (uc_UpdateConfiguration demo_lib lost_write_db ''a'' ''{\"k\":2}'' 20) =
     Inl (NewInternalError ''Failed to update configuration''
            (TextDetails (Error DriverError)))"
    using b [THEN conjunct2, THEN conjunct2, THEN conjunct2, THEN conjunct2, THEN conjunct2, THEN conjunct2, THEN conjunct2, THEN conjunct2, THEN conjunct2, THEN conjunct2, THEN conjunct1, rule_format, OF w1 w2,
        THEN conjunct1, rule_format, OF _ w3]
    by simp
  have w4: "fst (repo_ListConfigurationVersions ?s1 ''a'') = Inl DriverError"
    by (simp add: lost_write_db_def demo_lib_def repo_defs uc_defs err_defs)
  have li: "fst (uc_ListConfigurationVersions demo_lib lost_write_db ''a'') =
     Inl (NewInternalError ''Failed to list configuration versions''
            (TextDetails (Error DriverError)))"
    using b [THEN conjunct2, THEN conjunct2, THEN conjunct2, THEN conjunct2, THEN conjunct2, THEN conjunct2, THEN conjunct2, THEN conjunct2, THEN conjunct1, rule_format, OF w1 w4] .
  let ?vl = "\<lparr>VL_Name = ''a'',
          Versions = [\<lparr>VI_Version = 1, VI_CreatedAt = 10, IsRollback = False\<rparr>]\<rparr>"
  have fl: "fst (uc_ListConfigurationVersions demo_lib lost_rows_db ''a'') = Inr ?vl"
    by (simp add: lost_rows_db_def demo_lib_def repo_defs uc_defs err_defs)
  then have l: "uc_ListConfigurationVersions demo_lib lost_rows_db ''a'' =
      (Inr ?vl, snd (uc_ListConfigurationVersions demo_lib lost_rows_db ''a''))"
    by (metis prod.collapse)
  note c = engine_failures_classified
    [of demo_lib lost_rows_db "Get ''a''" "''a''" "''{}''" 20 1 "''{}''"]
  have pre: "\<exists>k. [\<lparr>VI_Version = 1, VI_CreatedAt = 10, IsRollback = False\<rparr>] =
      map (\<lambda>r. \<lparr>VI_Version = ver_version r, VI_CreatedAt = ver_created_at r,
                  IsRollback = ver_is_rollback r\<rparr>)
        (take k (select_versions lost_rows_db ''a''))"
    using c [THEN conjunct2, THEN conjunct2, THEN conjunct2, THEN conjunct2, THEN conjunct2, THEN conjunct2, THEN conjunct2, THEN conjunct2, THEN conjunct2, THEN conjunct2, THEN conjunct2, THEN conjunct2, rule_format, OF l]
    by simp
  show ?thesis
    using g r x k w3 u w4 li fl pre by simp
qed

end
